theory Spec2Isabelle
  imports
    Complex_Main
    "HOL-Library.AList"
    "HOL-Library.Char_ord"
    "HOL-Library.List_Lexorder"
    "HOL-Library.Multiset"
    "HOL-Library.Product_Lexorder"
begin

section \<open>The rating service of trueskill\_api\_v3.py, and the sequencer of the archive\<close>

text \<open>
  The service keeps three module globals (\<open>env\<close>, \<open>TEAM_RATINGS\<close>, and the context
  \<open>LAST_EVENT_KEY\<close>/\<open>LAST_YEAR\<close>) and mutates them from its request handlers. Here every
  handler is a function from the state to the new state and the answer. Python floats are
  modelled as reals, so the arithmetic below is exact; dictionaries are association lists
  in insertion order with one entry per key, as a Python \<open>dict\<close> is.
\<close>

subsection \<open>Python values\<close>

text \<open>
  A key of a JSON object is absent, present with \<open>null\<close>, or present with a value.
  \<open>d.get(k)\<close> gives \<open>None\<close> for the first two; \<open>d.get(k, default)\<close> gives the default
  only when the key is absent.
\<close>

datatype 'a field = Missing | Null | Val 'a

fun get :: "'a field \<Rightarrow> 'a option" where
  "get Missing = None"
| "get Null = None"
| "get (Val v) = Some v"

fun get_default :: "'a field \<Rightarrow> 'a \<Rightarrow> 'a option" where
  "get_default Missing d = Some d"
| "get_default Null d = None"
| "get_default (Val v) d = Some v"

text \<open>Exceptions the handlers meet, and the error answers they give.\<close>

datatype exn = ValueError | TypeError | AttributeError

datatype failure =
    BadRequest
  | NotFound
  | ServerError
  | Uncaught exn

subsection \<open>Team keys\<close>

text \<open>
  \<open>str(team_key).strip().lower()\<close>. A string is a list of code points below 256 (the
  Latin-1 range), one \<open>char\<close> each. On these, \<open>strip\<close> removes from both ends the characters
  for which \<open>str.isspace\<close> holds: the codes 9 to 13, 28 to 32, 133 and 160. \<open>lower\<close> maps the
  capitals \<open>A\<close> to \<open>Z\<close> (65 to 90) and the Latin-1 capitals 192 to 222, the sign 215 left
  out, to the code 32 higher, and leaves every other character alone.
\<close>

definition isspace :: "char \<Rightarrow> bool" where
  "isspace c \<longleftrightarrow>
     (of_char c :: nat) \<in> set [9, 10, 11, 12, 13, 28, 29, 30, 31, 32, 133, 160]"

definition strip :: "string \<Rightarrow> string" where
  "strip s = rev (dropWhile isspace (rev (dropWhile isspace s)))"

definition lower_char :: "char \<Rightarrow> char" where
  "lower_char c =
     (let n = (of_char c :: nat) in
        if (65 \<le> n \<and> n \<le> 90) \<or> (192 \<le> n \<and> n \<le> 222 \<and> n \<noteq> 215)
        then char_of (n + 32)
        else c)"

definition lower :: "string \<Rightarrow> string" where
  "lower s = map lower_char s"

definition canonical_key :: "string \<Rightarrow> string" where
  "canonical_key team_key = lower (strip team_key)"

subsection \<open>Ratings, the environment and the state\<close>

record rating =
  mu :: real
  sigma :: real

record environment =
  env_mu :: real
  env_sigma :: real
  beta :: real
  tau :: real
  draw_probability :: real

text \<open>
  \<open>trueskill.Rating(mu, sigma)\<close> of the library: it refuses \<open>sigma == 0\<close> with a
  \<open>ValueError\<close>, keeps the precision \<open>sigma ** -2\<close> and the precision-adjusted mean, and
  reads them back as \<open>mu\<close> and \<open>sqrt(1 / pi)\<close>, the absolute value of \<open>sigma\<close>.
  \<open>env.create_rating(mu, sigma)\<close> with both arguments given is this constructor.
\<close>

definition create_rating :: "real \<Rightarrow> real \<Rightarrow> exn + rating" where
  "create_rating m s =
     (if s = 0 then Inl ValueError else Inr \<lparr>mu = m, sigma = \<bar>s\<bar>\<rparr>)"

text \<open>\<open>env = trueskill.TrueSkill(draw_probability=0.0)\<close>: the library's defaults.\<close>

definition initial_env :: environment where
  "initial_env =
     \<lparr>env_mu = 25, env_sigma = 25 / 3, beta = 25 / 6, tau = 25 / 300, draw_probability = 0\<rparr>"

type_synonym ratings = "(string \<times> rating) list"

record state =
  env :: environment
  TEAM_RATINGS :: ratings
  LAST_EVENT_KEY :: "string option"
  LAST_YEAR :: "int option"

definition initial_state :: state where
  "initial_state =
     \<lparr>env = initial_env, TEAM_RATINGS = [], LAST_EVENT_KEY = None, LAST_YEAR = None\<rparr>"

text \<open>
  \<open>TEAM_RATINGS[k] = v\<close>: an existing key keeps its place and takes the new value, a new
  key goes to the end.
\<close>

definition dict_set :: "ratings \<Rightarrow> string \<Rightarrow> rating \<Rightarrow> ratings" where
  "dict_set d k v = AList.update k v d"

definition set_rating :: "state \<Rightarrow> string \<Rightarrow> rating \<Rightarrow> state" where
  "set_rating st k v = st\<lparr>TEAM_RATINGS := dict_set (TEAM_RATINGS st) k v\<rparr>"

text \<open>
  \<open>get_team_rating\<close>: the rating stored under the canonical key, created as
  \<open>env.create_rating(mu=25, sigma=(25/3))\<close> when the key is new. The two constants are
  written in the source; the constructor accepts them (lemma \<open>create_default_rating\<close>).
\<close>

definition default_rating :: rating where
  "default_rating = \<lparr>mu = 25, sigma = 25 / 3\<rparr>"

definition get_team_rating :: "state \<Rightarrow> string \<Rightarrow> state \<times> rating" where
  "get_team_rating st team_key =
     (let k = canonical_key team_key in
        case map_of (TEAM_RATINGS st) k of
          None \<Rightarrow> (set_rating st k default_rating, default_rating)
        | Some r \<Rightarrow> (st, r))"

text \<open>\<open>[get_team_rating(t) for t in teams]\<close>, left to right.\<close>

fun get_team_ratings :: "state \<Rightarrow> string list \<Rightarrow> state \<times> rating list" where
  "get_team_ratings st [] = (st, [])"
| "get_team_ratings st (t # ts) =
     (let (st1, r) = get_team_rating st t;
          (st2, rs) = get_team_ratings st1 ts
      in (st2, r # rs))"

subsection \<open>The confidence metric\<close>

definition team_confidence_from_sigma :: "real \<Rightarrow> environment \<Rightarrow> real" where
  "team_confidence_from_sigma s e =
     (let sigma0 = env_sigma e in
        if sigma0 \<le> 0 then 0
        else
          let frac = 1 - (s / sigma0) ^ 2;
              frac = max 0 (min 1 frac)
          in 100 * frac)"

subsection \<open>The library's update and distribution function\<close>

text \<open>
  \<open>env.rate([ratings1, ratings2], ranks=ranks)\<close> and \<open>env.cdf\<close> belong to the trueskill
  package, not to this repository; the handlers take them as parameters. \<open>rate\<close> may
  raise (the package refuses an empty group), so its result is a sum.
\<close>

type_synonym rate_fn =
  "environment \<Rightarrow> rating list \<Rightarrow> rating list \<Rightarrow> nat list \<Rightarrow> exn + (rating list \<times> rating list)"

type_synonym cdf_fn = "real \<Rightarrow> real"

subsection \<open>Applying one result\<close>

definition ranks_of :: "int \<Rightarrow> int \<Rightarrow> nat list" where
  "ranks_of score1 score2 =
     (if score1 > score2 then [0, 1]
      else if score2 > score1 then [1, 0]
      else [0, 0])"

text \<open>\<open>for t, new_r in zip(teams, new_ratings): TEAM_RATINGS[t] = new_r\<close>: the key is \<open>t\<close> as given.\<close>

fun write_back :: "state \<Rightarrow> (string \<times> rating) list \<Rightarrow> state" where
  "write_back st [] = st"
| "write_back st ((t, new_r) # rest) = write_back (set_rating st t new_r) rest"

text \<open>
  The statements from \<open>if score1 > score2\<close> to the second write-back loop; they are the same
  in \<open>update_ratings\<close> (lines 221 to 233) and in \<open>push_results\<close> (lines 261 to 273).
\<close>

definition apply_result ::
  "rate_fn \<Rightarrow> state \<Rightarrow> string list \<Rightarrow> string list \<Rightarrow> int \<Rightarrow> int \<Rightarrow> state \<times> (exn + unit)" where
  "apply_result rate st teams1 teams2 score1 score2 =
     (let ranks = ranks_of score1 score2;
          (st1, ratings1) = get_team_ratings st teams1;
          (st2, ratings2) = get_team_ratings st1 teams2
      in case rate (env st2) ratings1 ratings2 ranks of
           Inl e \<Rightarrow> (st2, Inl e)
         | Inr (new_ratings1, new_ratings2) \<Rightarrow>
             (write_back (write_back st2 (zip teams1 new_ratings1)) (zip teams2 new_ratings2),
              Inr ()))"

subsection \<open>Request bodies\<close>

text \<open>A JSON value where a handler expects a list.\<close>

datatype other_json = Scalar | EmptyContainer | NonEmptyContainer

datatype 'a json = NotAList other_json | JsonList "'a list"

text \<open>The keys the handlers read from one item of a request: any other key is ignored.\<close>

record request_match =
  teams1 :: "string list field"
  teams2 :: "string list field"
  score1 :: "int field"
  score2 :: "int field"

subsection \<open>push\_results\<close>

text \<open>\<open>not teams\<close>: the key is absent, \<open>null\<close> or the empty list.\<close>

definition no_teams :: "string list option \<Rightarrow> bool" where
  "no_teams ts \<longleftrightarrow> ts = None \<or> ts = Some []"

definition push_skips :: "request_match \<Rightarrow> bool" where
  "push_skips match \<longleftrightarrow>
     no_teams (get (teams1 match)) \<or> no_teams (get (teams2 match))
     \<or> get (score1 match) = None \<or> get (score2 match) = None"

fun push_loop :: "rate_fn \<Rightarrow> state \<Rightarrow> request_match list \<Rightarrow> nat \<Rightarrow> state \<times> (exn + nat)" where
  "push_loop rate st [] applied_count = (st, Inr applied_count)"
| "push_loop rate st (match # rest) applied_count =
     (if push_skips match then push_loop rate st rest applied_count
      else
        case apply_result rate st
               (the (get (teams1 match))) (the (get (teams2 match)))
               (the (get (score1 match))) (the (get (score2 match))) of
          (st', Inl e) \<Rightarrow> (st', Inl e)
        | (st', Inr u) \<Rightarrow> push_loop rate st' rest (applied_count + 1))"

text \<open>The answer carries \<open>applied\<close>; an exception of the loop leaves the handler uncaught.\<close>

definition push_results :: "rate_fn \<Rightarrow> state \<Rightarrow> request_match json \<Rightarrow> state \<times> (failure + nat)" where
  "push_results rate st data =
     (case data of
        NotAList j \<Rightarrow> (st, Inl BadRequest)
      | JsonList ms \<Rightarrow>
          (case push_loop rate st ms 0 of
             (st', Inl e) \<Rightarrow> (st', Inl (Uncaught e))
           | (st', Inr applied_count) \<Rightarrow> (st', Inr applied_count)))"

subsection \<open>predict\_team and predict\_match\<close>

text \<open>\<open>round(x, 2)\<close> over the reals: to the nearest hundredth, a tie to the even one.\<close>

definition round2 :: "real \<Rightarrow> real" where
  "round2 x =
     (let y = x * 100; f = \<lfloor>y\<rfloor>; d = y - of_int f
      in (if d < 1 / 2 then of_int f
          else if d > 1 / 2 then of_int f + 1
          else if even f then of_int f
          else of_int f + 1) / 100)"

record team_report =
  team :: string
  report_mu :: real
  report_sigma :: real
  report_conservative :: real
  report_confidence :: real

definition predict_team :: "state \<Rightarrow> string option \<Rightarrow> state \<times> (failure + team_report)" where
  "predict_team st team_key =
     (case team_key of
        None \<Rightarrow> (st, Inl BadRequest)
      | Some tk \<Rightarrow>
          if tk = [] then (st, Inl BadRequest)
          else
            let k = canonical_key tk in
              (case map_of (TEAM_RATINGS st) k of
                 None \<Rightarrow> (st, Inl NotFound)
               | Some r \<Rightarrow>
                   (st, Inr \<lparr>team = k, report_mu = mu r, report_sigma = sigma r,
                             report_conservative = mu r - 3 * sigma r,
                             report_confidence =
                               round2 (team_confidence_from_sigma (sigma r) (env st))\<rparr>)))"

record prediction =
  team1_win_prob :: real
  team2_win_prob :: real
  prediction_confidence_percent :: real

text \<open>\<open>data.get("teams") or []\<close>.\<close>

definition teams_or_empty :: "string list field \<Rightarrow> string list" where
  "teams_or_empty f = (case get f of None \<Rightarrow> [] | Some ts \<Rightarrow> ts)"

definition win_probability :: "cdf_fn \<Rightarrow> environment \<Rightarrow> rating list \<Rightarrow> rating list \<Rightarrow> real" where
  "win_probability cdf e ratings1 ratings2 =
     (let mu1 = sum_list (map mu ratings1);
          mu2 = sum_list (map mu ratings2);
          sigma_sq_sum = sum_list (map (\<lambda>r. (sigma r) ^ 2) (ratings1 @ ratings2));
          N = length ratings1 + length ratings2;
          delta_mu = mu1 - mu2;
          denom = sqrt (real N * (beta e) ^ 2 + sigma_sq_sum)
      in if denom \<noteq> 0 then cdf (delta_mu / denom) else 1 / 2)"

definition predict_match ::
  "cdf_fn \<Rightarrow> state \<Rightarrow> request_match option \<Rightarrow> state \<times> (failure + prediction)" where
  "predict_match cdf st data =
     (case data of
        None \<Rightarrow> (st, Inl BadRequest)
      | Some d \<Rightarrow>
          let teams1 = teams_or_empty (teams1 d);
              teams2 = teams_or_empty (teams2 d)
          in if teams1 = [] \<or> teams2 = [] then (st, Inl BadRequest)
             else
               let (st1, ratings1) = get_team_ratings st teams1;
                   (st2, ratings2) = get_team_ratings st1 teams2;
                   win_prob = win_probability cdf (env st2) ratings1 ratings2;
                   prediction_conf = \<bar>2 * win_prob - 1\<bar> * 100
               in (st2, Inr \<lparr>team1_win_prob = win_prob,
                             team2_win_prob = 1 - win_prob,
                             prediction_confidence_percent = round2 prediction_conf\<rparr>))"

text \<open>
  \<open>predict_batch\<close>: one answer for each item, an error entry for an item without teams;
  every named team is looked up with \<open>get_team_rating\<close>, as in \<open>predict_match\<close>.
\<close>

datatype batch_result =
    BatchError
  | BatchPrediction "string list" "string list" real real

fun predict_batch_loop :: "cdf_fn \<Rightarrow> state \<Rightarrow> request_match list \<Rightarrow> state \<times> batch_result list" where
  "predict_batch_loop cdf st [] = (st, [])"
| "predict_batch_loop cdf st (match # rest) =
     (let ts1 = teams_or_empty (teams1 match);
          ts2 = teams_or_empty (teams2 match)
      in if ts1 = [] \<or> ts2 = []
         then (let (st', results) = predict_batch_loop cdf st rest
               in (st', BatchError # results))
         else
           (let (st1, ratings1) = get_team_ratings st ts1;
                (st2, ratings2) = get_team_ratings st1 ts2;
                win_prob = win_probability cdf (env st2) ratings1 ratings2;
                (st', results) = predict_batch_loop cdf st2 rest
            in (st', BatchPrediction ts1 ts2 win_prob (1 - win_prob) # results)))"

definition predict_batch ::
  "cdf_fn \<Rightarrow> state \<Rightarrow> request_match json \<Rightarrow> state \<times> (failure + batch_result list)" where
  "predict_batch cdf st data =
     (case data of
        NotAList j \<Rightarrow> (st, Inl BadRequest)
      | JsonList ms \<Rightarrow>
          (case predict_batch_loop cdf st ms of (st', results) \<Rightarrow> (st', Inr results)))"

subsection \<open>The snapshot: export\<close>

record team_entry =
  team_key :: "string field"
  entry_mu :: "real field"
  entry_sigma :: "real field"
  conservative_mu_3sigma :: "real field"
  confidence_percent :: "real field"

record env_entry =
  json_mu :: "real field"
  json_sigma :: "real field"
  json_beta :: "real field"
  json_tau :: "real field"
  json_draw_probability :: "real field"

record context_entry =
  json_event_key :: "string field"
  json_year :: "int field"
  teams_indexed :: "nat field"

text \<open>
  Of \<open>meta\<close> the model keeps \<open>env\<close> and \<open>context\<close>; \<open>generated_at\<close> (the clock) and \<open>source\<close>
  (a constant text) are written by the export and read by nothing.
\<close>

record meta_entry =
  meta_env :: "env_entry field"
  meta_context :: "context_entry field"

record payload =
  meta :: "meta_entry field"
  teams :: "team_entry list field"




subsection \<open>The snapshot: import\<close>

definition empty_env_entry :: env_entry where
  "empty_env_entry =
     \<lparr>json_mu = Missing, json_sigma = Missing, json_beta = Missing, json_tau = Missing,
      json_draw_probability = Missing\<rparr>"

definition empty_context_entry :: context_entry where
  "empty_context_entry =
     \<lparr>json_event_key = Missing, json_year = Missing, teams_indexed = Missing\<rparr>"

text \<open>\<open>(payload.get("meta") or {}).get("env") or {}\<close>, and the same for \<open>context\<close>.\<close>

definition payload_env :: "payload \<Rightarrow> env_entry" where
  "payload_env p =
     (case get (meta p) of
        None \<Rightarrow> empty_env_entry
      | Some m \<Rightarrow> (case get (meta_env m) of None \<Rightarrow> empty_env_entry | Some e \<Rightarrow> e))"

definition payload_context :: "payload \<Rightarrow> context_entry" where
  "payload_context p =
     (case get (meta p) of
        None \<Rightarrow> empty_context_entry
      | Some m \<Rightarrow> (case get (meta_context m) of None \<Rightarrow> empty_context_entry | Some c \<Rightarrow> c))"

text \<open>
  The body of the \<open>try\<close>: each parameter is \<open>float(meta_env.get(name, env.name))\<close>, and
  \<open>float(None)\<close> raises. \<open>None\<close> here is the exception, which the \<open>except\<close> swallows.
\<close>

definition env_from_json :: "environment \<Rightarrow> env_entry \<Rightarrow> environment option" where
  "env_from_json cur j =
     (case get_default (json_mu j) (env_mu cur) of None \<Rightarrow> None | Some m \<Rightarrow>
     (case get_default (json_sigma j) (env_sigma cur) of None \<Rightarrow> None | Some s \<Rightarrow>
     (case get_default (json_beta j) (beta cur) of None \<Rightarrow> None | Some b \<Rightarrow>
     (case get_default (json_tau j) (tau cur) of None \<Rightarrow> None | Some t \<Rightarrow>
     (case get_default (json_draw_probability j) (draw_probability cur) of None \<Rightarrow> None | Some d \<Rightarrow>
        Some \<lparr>env_mu = m, env_sigma = s, beta = b, tau = t, draw_probability = d\<rparr>)))))"

text \<open>The test \<open>if not key or mu is None or sigma is None: continue\<close>, after the one on \<open>key_raw\<close>.\<close>

definition entry_skipped :: "team_entry \<Rightarrow> bool" where
  "entry_skipped entry \<longleftrightarrow>
     (case get_default (team_key entry) [] of
        None \<Rightarrow> True
      | Some key_raw \<Rightarrow>
          canonical_key key_raw = [] \<or> get (entry_mu entry) = None
          \<or> get (entry_sigma entry) = None)"

fun load_teams :: "state \<Rightarrow> team_entry list \<Rightarrow> state \<times> (exn + unit)" where
  "load_teams st [] = (st, Inr ())"
| "load_teams st (entry # rest) =
     (if entry_skipped entry then load_teams st rest
      else
        case create_rating (the (get (entry_mu entry))) (the (get (entry_sigma entry))) of
          Inl e \<Rightarrow> (st, Inl e)
        | Inr r \<Rightarrow>
            load_teams
              (set_rating st (canonical_key (the (get_default (team_key entry) []))) r) rest)"

definition apply_json_to_memory :: "state \<Rightarrow> payload \<Rightarrow> bool \<Rightarrow> state \<times> (exn + nat)" where
  "apply_json_to_memory st p use_env_from_json =
     (let st1 = (if use_env_from_json
                 then (case env_from_json (env st) (payload_env p) of
                         None \<Rightarrow> st
                       | Some e \<Rightarrow> st\<lparr>env := e\<rparr>)
                 else st);
          st2 = st1\<lparr>TEAM_RATINGS := []\<rparr>;
          teams = (case get (teams p) of None \<Rightarrow> [] | Some ts \<Rightarrow> ts)
      in case load_teams st2 teams of
           (st3, Inl e) \<Rightarrow> (st3, Inl e)
         | (st3, Inr u) \<Rightarrow>
             (let meta_ctx = payload_context p;
                  st4 = st3\<lparr>LAST_EVENT_KEY := get (json_event_key meta_ctx),
                            LAST_YEAR := get (json_year meta_ctx)\<rparr>
              in (st4, Inr (length (TEAM_RATINGS st4)))))"

subsection \<open>load\_data\<close>

text \<open>
  The file system is a parameter: reading a path gives the decoded snapshot or one of
  the errors the handler tells apart. \<open>DATA_PATH\<close> is fixed when the module is loaded.
\<close>

datatype file_result = FileNotFoundError | JSONDecodeError | OtherError | Contents payload

record load_body =
  path :: "string field"
  use_env_from_json :: "bool field"

record load_report =
  loaded_file :: string
  loaded_use_env :: bool
  loaded_teams :: nat
  loaded_event_key :: "string option"
  loaded_year :: "int option"

text \<open>
  \<open>bool(body.get("use_env_from_json", True))\<close>: an absent key is true, \<open>null\<close> is false.
  \<open>Val b\<close> stands for a JSON value whose truth value is \<open>b\<close>: \<open>false\<close>, zero, the empty
  text and the empty containers are false, every other value is true.
\<close>

definition flag_of :: "bool field \<Rightarrow> bool" where
  "flag_of f = (case get_default f True of None \<Rightarrow> False | Some b \<Rightarrow> b)"

definition load_data_from_json ::
  "(string \<Rightarrow> file_result) \<Rightarrow> string \<Rightarrow> state \<Rightarrow> load_body \<Rightarrow> state \<times> (failure + load_report)" where
  "load_data_from_json read_file DATA_PATH st body =
     (let p = (case get (path body) of
                 None \<Rightarrow> DATA_PATH
               | Some q \<Rightarrow> if q = [] then DATA_PATH else q);
          flag = flag_of (use_env_from_json body)
      in case read_file p of
           FileNotFoundError \<Rightarrow> (st, Inl NotFound)
         | JSONDecodeError \<Rightarrow> (st, Inl ServerError)
         | OtherError \<Rightarrow> (st, Inl ServerError)
         | Contents pl \<Rightarrow>
             (case apply_json_to_memory st pl flag of
                (st', Inl e) \<Rightarrow> (st', Inl ServerError)
              | (st', Inr loaded) \<Rightarrow>
                  (st', Inr \<lparr>loaded_file = p, loaded_use_env = flag, loaded_teams = loaded,
                             loaded_event_key = LAST_EVENT_KEY st',
                             loaded_year = LAST_YEAR st'\<rparr>)))"

subsection \<open>recalculate\<close>

text \<open>
  \<open>recalculate\<close> with \<open>source\<close> equal to \<open>json\<close> reloads the table from the file at
  \<open>DATA_PATH\<close>; it calls the import without a flag, and the import's own default is false.
  Then it writes the file again, which changes nothing in memory (the write is not
  modelled). \<open>str(None)\<close> is the text \<open>None\<close>.
\<close>

record recalculate_body =
  source :: "string field"

record recalculate_report =
  recalculate_source :: string
  recalculate_teams_indexed :: nat
  saved_teams_indexed :: nat

definition count_teams_in_payload :: "payload \<Rightarrow> nat" where
  "count_teams_in_payload p = (case teams p of Val ts \<Rightarrow> length ts | Missing \<Rightarrow> 0 | Null \<Rightarrow> 0)"

definition recalculate_values ::
  "(string \<Rightarrow> file_result) \<Rightarrow> string \<Rightarrow> state \<Rightarrow> recalculate_body \<Rightarrow>
   state \<times> (failure + recalculate_report)" where
  "recalculate_values read_file DATA_PATH st body =
     (let src = lower (case get_default (source body) ''memory'' of
                         None \<Rightarrow> ''None''
                       | Some s \<Rightarrow> s)
      in if src = ''json'' then
           (case read_file DATA_PATH of
              FileNotFoundError \<Rightarrow> (st, Inl NotFound)
            | JSONDecodeError \<Rightarrow> (st, Inl ServerError)
            | OtherError \<Rightarrow> (st, Inl ServerError)
            | Contents pl \<Rightarrow>
                (case apply_json_to_memory st pl False of
                   (st', Inl e) \<Rightarrow> (st', Inl ServerError)
                 | (st', Inr loaded) \<Rightarrow>
                     (st', Inr \<lparr>recalculate_source = src,
                                recalculate_teams_indexed = count_teams_in_payload pl,
                                saved_teams_indexed = length (TEAM_RATINGS st')\<rparr>)))
         else
           (st, Inr \<lparr>recalculate_source = src,
                     recalculate_teams_indexed = length (TEAM_RATINGS st),
                     saved_teams_indexed = length (TEAM_RATINGS st)\<rparr>))"

subsection \<open>The provider's matches, and the order they are applied in\<close>

record alliance =
  team_keys :: "string list field"
  score :: "int field"

record alliances_entry =
  red :: "alliance field"
  blue :: "alliance field"

record tba_match =
  actual_time :: "int field"
  time :: "int field"
  comp_level :: "string field"
  set_number :: "int field"
  match_number :: "int field"
  alliances :: "alliances_entry field"

text \<open>\<open>a or b\<close> on numbers that may be \<open>None\<close>: zero and \<open>None\<close> are both false.\<close>

definition int_or :: "int option \<Rightarrow> int \<Rightarrow> int" where
  "int_or a b = (case a of None \<Rightarrow> b | Some x \<Rightarrow> if x = 0 then b else x)"

text \<open>\<open>m.get('actual_time') or m.get('time') or 0\<close>.\<close>

definition match_time :: "tba_match \<Rightarrow> int" where
  "match_time m = int_or (get (actual_time m)) (int_or (get (time m)) 0)"

text \<open>
  \<open>update_ratings\<close> of the service (lines 205 to 208):
  \<open>matches.sort(key=lambda m: (m.get('actual_time') or m.get('time') or 0))\<close>.
  The times are integers, so the comparison never raises and the \<open>except\<close> is not taken.
\<close>

definition sort_by_time :: "tba_match list \<Rightarrow> tba_match list" where
  "sort_by_time matches = sort_key match_time matches"




subsection \<open>update\_ratings: the rebuild\<close>

definition empty_alliance :: alliance where
  "empty_alliance = \<lparr>team_keys = Missing, score = Missing\<rparr>"

text \<open>\<open>not alliances\<close>: the key is absent or \<open>null\<close>, or the object has no entry.\<close>

definition no_alliances :: "alliances_entry option \<Rightarrow> bool" where
  "no_alliances a \<longleftrightarrow>
     (case a of None \<Rightarrow> True | Some x \<Rightarrow> red x = Missing \<and> blue x = Missing)"

text \<open>
  One turn of \<open>for match in matches\<close>. \<open>None\<close> is \<open>continue\<close>. A \<open>null\<close> alliance makes
  \<open>.get\<close> raise \<open>AttributeError\<close>; \<open>null\<close> team keys make the comprehension raise
  \<open>TypeError\<close>, the first alliance before the second, and only once the scores have passed.
\<close>

definition rebuild_step ::
  "rate_fn \<Rightarrow> string option \<Rightarrow> int option \<Rightarrow> state \<Rightarrow> tba_match \<Rightarrow> (state \<times> (exn + unit)) option" where
  "rebuild_step rate event_key year st match =
     (let a = get (alliances match) in
        if no_alliances a then None
        else
          (case (get_default (red (the a)) empty_alliance,
                 get_default (blue (the a)) empty_alliance) of
             (None, b) \<Rightarrow> Some (st, Inl AttributeError)
           | (Some red_alliance, None) \<Rightarrow> Some (st, Inl AttributeError)
           | (Some red_alliance, Some blue_alliance) \<Rightarrow>
               (let teams1 = get_default (team_keys red_alliance) [];
                    teams2 = get_default (team_keys blue_alliance) [];
                    score1 = get (score red_alliance);
                    score2 = get (score blue_alliance)
                in if score1 = None \<or> score2 = None \<or> the score1 < 0 \<or> the score2 < 0
                   then None
                   else if teams1 = None then Some (st, Inl TypeError)
                   else if teams2 = None
                   then Some (fst (get_team_ratings st (the teams1)), Inl TypeError)
                   else
                     (case apply_result rate st (the teams1) (the teams2)
                             (the score1) (the score2) of
                        (st', Inl e) \<Rightarrow> Some (st', Inl e)
                      | (st', Inr u) \<Rightarrow>
                          Some (st'\<lparr>LAST_EVENT_KEY := event_key, LAST_YEAR := year\<rparr>,
                                Inr ())))))"

fun rebuild_loop ::
  "rate_fn \<Rightarrow> string option \<Rightarrow> int option \<Rightarrow> state \<Rightarrow> tba_match list \<Rightarrow> state \<times> (exn + unit)" where
  "rebuild_loop rate event_key year st [] = (st, Inr ())"
| "rebuild_loop rate event_key year st (match # rest) =
     (case rebuild_step rate event_key year st match of
        None \<Rightarrow> rebuild_loop rate event_key year st rest
      | Some (st', Inl e) \<Rightarrow> (st', Inl e)
      | Some (st', Inr u) \<Rightarrow> rebuild_loop rate event_key year st' rest)"

text \<open>
  The provider is a parameter: a request raises, or answers with a status and a body that
  decodes or not. Every exception of the gather phase is caught by the handler's \<open>except\<close>.
\<close>

datatype 'a response_body = InvalidJson | Json 'a

datatype 'a response = RequestFailed | Response nat "'a response_body"

record event =
  key :: "string field"

record update_request =
  request_event_key :: "string field"
  request_year :: "int field"

record update_report =
  report_event_key :: "string option"
  report_year :: "int option"
  report_teams_indexed :: nat

text \<open>
  The loop over the season's events. An event whose request answers with a status other
  than 200, or with a body that is not a list, adds nothing and the loop goes on;
  \<open>None\<close> is an exception (the request or the decoding raised).
\<close>

fun gather_events ::
  "(string \<Rightarrow> tba_match json response) \<Rightarrow> event list \<Rightarrow> tba_match list \<Rightarrow> tba_match list option"
where
  "gather_events fetch_matches [] matches = Some matches"
| "gather_events fetch_matches (ev # rest) matches =
     (case get (key ev) of
        None \<Rightarrow> gather_events fetch_matches rest matches
      | Some ev_key \<Rightarrow>
          if ev_key = [] then gather_events fetch_matches rest matches
          else
            (case fetch_matches ev_key of
               RequestFailed \<Rightarrow> None
             | Response status b \<Rightarrow>
                 if status = 200 then
                   (case b of
                      InvalidJson \<Rightarrow> None
                    | Json (JsonList ev_matches) \<Rightarrow>
                        gather_events fetch_matches rest (matches @ ev_matches)
                    | Json (NotAList j) \<Rightarrow> gather_events fetch_matches rest matches)
                 else gather_events fetch_matches rest matches))"

text \<open>
  The gather phase of \<open>update_ratings\<close> (the \<open>try\<close> of lines 175 to 203): the value of
  \<open>matches\<close>, or the 500 answer. For one event the decoded body is taken as it is, list or
  not; for a season the list of events is checked with \<open>isinstance\<close>.
\<close>

definition gather ::
  "(string \<Rightarrow> tba_match json response) \<Rightarrow> (int \<Rightarrow> event json response) \<Rightarrow>
   string option \<Rightarrow> int option \<Rightarrow> failure + tba_match json" where
  "gather fetch_matches fetch_events event_key year =
     (case event_key of
        Some k \<Rightarrow>
          (case fetch_matches k of
             RequestFailed \<Rightarrow> Inl ServerError
           | Response status b \<Rightarrow>
               if status \<noteq> 200 then Inl ServerError
               else (case b of InvalidJson \<Rightarrow> Inl ServerError | Json j \<Rightarrow> Inr j))
      | None \<Rightarrow>
          (case fetch_events (the year) of
             RequestFailed \<Rightarrow> Inl ServerError
           | Response status b \<Rightarrow>
               if status \<noteq> 200 then Inl ServerError
               else
                 (case b of
                    InvalidJson \<Rightarrow> Inl ServerError
                  | Json (NotAList j) \<Rightarrow> Inl ServerError
                  | Json (JsonList events_list) \<Rightarrow>
                      (case gather_events fetch_matches events_list [] of
                         None \<Rightarrow> Inl ServerError
                       | Some matches \<Rightarrow> Inr (JsonList matches)))))"

text \<open>
  The apply phase (from line 204): the table is cleared, the matches are sorted and
  replayed. A body that is not a list has no \<open>sort\<close> (the \<open>except\<close> swallows that), and
  the \<open>for\<close> raises on it unless it is an empty container.
\<close>

definition replay ::
  "rate_fn \<Rightarrow> string option \<Rightarrow> int option \<Rightarrow> state \<Rightarrow> tba_match json \<Rightarrow> state \<times> (exn + unit)" where
  "replay rate event_key year st matches =
     (let st0 = st\<lparr>TEAM_RATINGS := []\<rparr> in
        case matches of
          JsonList ms \<Rightarrow> rebuild_loop rate event_key year st0 (sort_by_time ms)
        | NotAList Scalar \<Rightarrow> (st0, Inl TypeError)
        | NotAList EmptyContainer \<Rightarrow> (st0, Inr ())
        | NotAList NonEmptyContainer \<Rightarrow> (st0, Inl AttributeError))"

text \<open>Truth of \<open>event_key\<close> and \<open>year\<close>: an empty key and the year 0 count as not given.\<close>

definition given_key :: "string field \<Rightarrow> string option" where
  "given_key f = (case get f of None \<Rightarrow> None | Some k \<Rightarrow> if k = [] then None else Some k)"

definition given_year :: "int field \<Rightarrow> int option" where
  "given_year f = (case get f of None \<Rightarrow> None | Some y \<Rightarrow> if y = 0 then None else Some y)"

definition update_ratings ::
  "rate_fn \<Rightarrow> string \<Rightarrow> (string \<Rightarrow> tba_match json response) \<Rightarrow> (int \<Rightarrow> event json response) \<Rightarrow>
   state \<Rightarrow> update_request option \<Rightarrow> state \<times> (failure + update_report)" where
  "update_ratings rate TBA_AUTH_KEY fetch_matches fetch_events st data =
     (case data of
        None \<Rightarrow> (st, Inl BadRequest)
      | Some d \<Rightarrow>
          (let ek = given_key (request_event_key d); yr = given_year (request_year d) in
             if (ek \<noteq> None \<and> yr \<noteq> None) \<or> (ek = None \<and> yr = None) then (st, Inl BadRequest)
             else if TBA_AUTH_KEY = [] then (st, Inl ServerError)
             else
               (case gather fetch_matches fetch_events ek yr of
                  Inl f \<Rightarrow> (st, Inl f)
                | Inr matches \<Rightarrow>
                    (case replay rate ek yr st matches of
                       (st', Inl e) \<Rightarrow> (st', Inl (Uncaught e))
                     | (st', Inr u) \<Rightarrow>
                         (st', Inr \<lparr>report_event_key = ek, report_year = yr,
                                    report_teams_indexed = length (TEAM_RATINGS st')\<rparr>)))))"

subsection \<open>The service as a whole\<close>

text \<open>
  The requests that can change the state, each with what the outside world answers while
  it is served. \<open>health\<close>, \<open>upload_data\<close> and \<open>leaderboard\<close> only read the state. The service
  starts in \<open>initial_state\<close> and serves one request after the other.
\<close>

datatype request =
    Update "string \<Rightarrow> tba_match json response" "int \<Rightarrow> event json response"
      "update_request option"
  | PushResults "request_match json"
  | PredictTeam "string option"
  | PredictMatch "request_match option"
  | PredictBatch "request_match json"
  | Recalculate "string \<Rightarrow> file_result" recalculate_body
  | LoadData "string \<Rightarrow> file_result" load_body

fun serve :: "rate_fn \<Rightarrow> cdf_fn \<Rightarrow> string \<Rightarrow> string \<Rightarrow> state \<Rightarrow> request \<Rightarrow> state" where
  "serve rate cdf TBA_AUTH_KEY DATA_PATH st (Update fetch_matches fetch_events data) =
     fst (update_ratings rate TBA_AUTH_KEY fetch_matches fetch_events st data)"
| "serve rate cdf TBA_AUTH_KEY DATA_PATH st (PushResults data) =
     fst (push_results rate st data)"
| "serve rate cdf TBA_AUTH_KEY DATA_PATH st (PredictTeam t) = fst (predict_team st t)"
| "serve rate cdf TBA_AUTH_KEY DATA_PATH st (PredictMatch data) =
     fst (predict_match cdf st data)"
| "serve rate cdf TBA_AUTH_KEY DATA_PATH st (PredictBatch data) =
     fst (predict_batch cdf st data)"
| "serve rate cdf TBA_AUTH_KEY DATA_PATH st (Recalculate read_file body) =
     fst (recalculate_values read_file DATA_PATH st body)"
| "serve rate cdf TBA_AUTH_KEY DATA_PATH st (LoadData read_file body) =
     fst (load_data_from_json read_file DATA_PATH st body)"

definition run ::
  "rate_fn \<Rightarrow> cdf_fn \<Rightarrow> string \<Rightarrow> string \<Rightarrow> state \<Rightarrow> request list \<Rightarrow> state" where
  "run rate cdf TBA_AUTH_KEY DATA_PATH st requests =
     foldl (serve rate cdf TBA_AUTH_KEY DATA_PATH) st requests"

text \<open>
  The team keys a request brings to the service: for an update those of the matches the
  provider delivers, for \<open>push_results\<close> and the predictions of alliances those of the body,
  for an import those of the snapshot read. \<open>predict_team\<close> looks one team up and brings
  none. These lists are the vocabulary of the statements about teams that were never
  referenced; the handlers do not use them.
\<close>

definition alliance_teams :: "alliance field \<Rightarrow> string list" where
  "alliance_teams f =
     (case get f of
        None \<Rightarrow> []
      | Some a \<Rightarrow> (case get (team_keys a) of None \<Rightarrow> [] | Some ts \<Rightarrow> ts))"

definition match_teams :: "tba_match \<Rightarrow> string list" where
  "match_teams m =
     (case get (alliances m) of
        None \<Rightarrow> []
      | Some a \<Rightarrow> alliance_teams (red a) @ alliance_teams (blue a))"

definition request_teams :: "request_match \<Rightarrow> string list" where
  "request_teams m = teams_or_empty (teams1 m) @ teams_or_empty (teams2 m)"

definition snapshot_teams :: "payload \<Rightarrow> string list" where
  "snapshot_teams p =
     (case get (teams p) of
        None \<Rightarrow> []
      | Some es \<Rightarrow> concat (map (\<lambda>e. case get (team_key e) of None \<Rightarrow> [] | Some k \<Rightarrow> [k]) es))"

fun teams_named :: "string \<Rightarrow> request \<Rightarrow> string list" where
  "teams_named DATA_PATH (Update fetch_matches fetch_events data) =
     (case data of
        None \<Rightarrow> []
      | Some d \<Rightarrow>
          (let ek = given_key (request_event_key d); yr = given_year (request_year d) in
             if (ek \<noteq> None \<and> yr \<noteq> None) \<or> (ek = None \<and> yr = None) then []
             else
               (case gather fetch_matches fetch_events ek yr of
                  Inr (JsonList ms) \<Rightarrow> concat (map match_teams ms)
                | Inr (NotAList j) \<Rightarrow> []
                | Inl f \<Rightarrow> [])))"
| "teams_named DATA_PATH (PushResults data) =
     (case data of JsonList ms \<Rightarrow> concat (map request_teams ms) | NotAList j \<Rightarrow> [])"
| "teams_named DATA_PATH (PredictTeam t) = []"
| "teams_named DATA_PATH (PredictMatch data) =
     (case data of None \<Rightarrow> [] | Some d \<Rightarrow> request_teams d)"
| "teams_named DATA_PATH (PredictBatch data) =
     (case data of JsonList ms \<Rightarrow> concat (map request_teams ms) | NotAList j \<Rightarrow> [])"
| "teams_named DATA_PATH (Recalculate read_file body) =
     (case read_file DATA_PATH of
        Contents pl \<Rightarrow> snapshot_teams pl
      | FileNotFoundError \<Rightarrow> []
      | JSONDecodeError \<Rightarrow> []
      | OtherError \<Rightarrow> [])"
| "teams_named DATA_PATH (LoadData read_file body) =
     (case read_file (case get (path body) of
                        None \<Rightarrow> DATA_PATH
                      | Some q \<Rightarrow> if q = [] then DATA_PATH else q) of
        Contents pl \<Rightarrow> snapshot_teams pl
      | FileNotFoundError \<Rightarrow> []
      | JSONDecodeError \<Rightarrow> []
      | OtherError \<Rightarrow> [])"

text \<open>\<open>TEAM_RATINGS.keys()\<close>.\<close>

definition stored_keys :: "state \<Rightarrow> string set" where
  "stored_keys st = set (map fst (TEAM_RATINGS st))"

text \<open>
  The keys under which a reference to the given team keys can write: the lookup writes
  under the canonical key, the write-back of an update under the key as given.
\<close>

definition touched :: "string list \<Rightarrow> string set" where
  "touched ts = set ts \<union> canonical_key ` set ts"

text \<open>
  Two notions for the statements about a season's rebuild. The request for an event's
  matches raises when the request itself fails or its answer has status 200 and a body
  that cannot be decoded. The matches an event delivers are those of an answer with
  status 200 whose body is a list; any other answer delivers none.
\<close>

definition event_fetch_raises :: "(string \<Rightarrow> tba_match json response) \<Rightarrow> event \<Rightarrow> bool" where
  "event_fetch_raises fetch_matches ev \<longleftrightarrow>
     (case get (key ev) of
        None \<Rightarrow> False
      | Some k \<Rightarrow>
          k \<noteq> [] \<and> (fetch_matches k = RequestFailed \<or> fetch_matches k = Response 200 InvalidJson))"

definition event_matches :: "(string \<Rightarrow> tba_match json response) \<Rightarrow> event \<Rightarrow> tba_match list" where
  "event_matches fetch_matches ev =
     (case get (key ev) of
        None \<Rightarrow> []
      | Some k \<Rightarrow>
          if k = [] then []
          else
            (case fetch_matches k of
               RequestFailed \<Rightarrow> []
             | Response status b \<Rightarrow>
                 (case b of
                    InvalidJson \<Rightarrow> []
                  | Json j \<Rightarrow>
                      (case j of
                         JsonList ms \<Rightarrow> if status = 200 then ms else []
                       | NotAList x \<Rightarrow> []))))"

subsection \<open>Stand-ins for the library in the closed examples\<close>

text \<open>
  The closed examples below need some \<open>rate\<close> and some \<open>cdf\<close>. These two are not the
  package's functions: \<open>sample_rate\<close> refuses an empty group as the package does, and moves
  the winners' means up by one and the losers' down by one; \<open>sample_cdf\<close> is an increasing
  function with \<open>sample_cdf 0 = 1 / 2\<close>. No general statement depends on them.
\<close>

definition sample_rate :: rate_fn where
  "sample_rate e ratings1 ratings2 ranks =
     (if ratings1 = [] \<or> ratings2 = [] then Inl ValueError
      else
        let d = (if ranks = [0, 1] then 1 else if ranks = [1, 0] then - 1 else 0)
        in Inr (map (\<lambda>r. r\<lparr>mu := mu r + d\<rparr>) ratings1,
                map (\<lambda>r. r\<lparr>mu := mu r - d\<rparr>) ratings2))"

definition sample_cdf :: cdf_fn where
  "sample_cdf x = 1 / 2 + x / (2 * (1 + \<bar>x\<bar>))"

text \<open>
  A snapshot file whose environment differs from the library's defaults, with one team;
  the same snapshot with \<open>null\<close> for the prior mean; a file system that holds the first
  at the default path and the second at another.
\<close>

definition sample_snapshot :: payload where
  "sample_snapshot =
     \<lparr>meta = Val
        \<lparr>meta_env = Val
           \<lparr>json_mu = Val 30, json_sigma = Val 10, json_beta = Val 5, json_tau = Val (1 / 10),
            json_draw_probability = Val 0\<rparr>,
         meta_context = Missing\<rparr>,
      teams = Val
        [\<lparr>team_key = Val ''frc7'', entry_mu = Val 31, entry_sigma = Val 2,
          conservative_mu_3sigma = Val 25, confidence_percent = Val 96\<rparr>]\<rparr>"

definition null_mu_snapshot :: payload where
  "null_mu_snapshot =
     \<lparr>meta = Val
        \<lparr>meta_env = Val
           \<lparr>json_mu = Null, json_sigma = Val 10, json_beta = Val 5, json_tau = Val (1 / 10),
            json_draw_probability = Val 0\<rparr>,
         meta_context = Missing\<rparr>,
      teams = Val []\<rparr>"

definition sample_files :: "string \<Rightarrow> file_result" where
  "sample_files p =
     (if p = ''trueskill_data.json'' then Contents sample_snapshot
      else if p = ''null_mu.json'' then Contents null_mu_snapshot
      else FileNotFoundError)"

text \<open>
  A season of two events: the provider answers the match request of the first with
  status 500 and that of the second with one played match.
\<close>

definition sample_match :: tba_match where
  "sample_match =
     \<lparr>actual_time = Val 100, time = Missing, comp_level = Val ''qm'', set_number = Val 1,
      match_number = Val 1,
      alliances = Val
        \<lparr>red = Val \<lparr>team_keys = Val [''frc1''], score = Val 3\<rparr>,
         blue = Val \<lparr>team_keys = Val [''frc2''], score = Val 1\<rparr>\<rparr>\<rparr>"

definition sample_season :: "int \<Rightarrow> event json response" where
  "sample_season y = Response 200 (Json (JsonList [\<lparr>key = Val ''e1''\<rparr>, \<lparr>key = Val ''e2''\<rparr>]))"

definition sample_provider :: "string \<Rightarrow> tba_match json response" where
  "sample_provider k =
     (if k = ''e1'' then Response 500 InvalidJson
      else Response 200 (Json (JsonList [sample_match])))"



text \<open>The rating the table holds for a team: the entry under the canonical key.\<close>

definition stored_rating :: "state \<Rightarrow> string \<Rightarrow> rating option" where
  "stored_rating st t = map_of (TEAM_RATINGS st) (canonical_key t)"

section \<open>Properties\<close>

lemma create_default_rating: "create_rating 25 (25 / 3) = Inr default_rating"
  by (simp add: create_rating_def default_rating_def)

subsection \<open>Canonical keys\<close>

lemma isspace_lower_char [simp]: "isspace (lower_char c) = isspace c"
  by (auto simp add: isspace_def lower_char_def Let_def)

lemma lower_char_idem [simp]: "lower_char (lower_char c) = lower_char c"
  by (auto simp add: lower_char_def Let_def)

lemma strip_stripped:
  assumes "s = [] \<or> (\<not> isspace (hd s) \<and> \<not> isspace (last s))"
  shows "strip s = s"
proof (cases s)
  case Nil
  then show ?thesis by (simp add: strip_def)
next
  case (Cons c cs)
  with assms have h: "\<not> isspace c" and l: "\<not> isspace (last s)" by simp_all
  have "dropWhile isspace s = s" using h Cons by simp
  moreover have "dropWhile isspace (rev s) = rev s"
    using l Cons by (simp add: dropWhile_eq_self_iff hd_rev del: rev.simps)
  ultimately show ?thesis by (simp add: strip_def)
qed

lemma stripped_strip:
  "strip s = [] \<or> (\<not> isspace (hd (strip s)) \<and> \<not> isspace (last (strip s)))"
proof -
  define a where "a = dropWhile isspace s"
  define c where "c = dropWhile isspace (rev a)"
  have s: "strip s = rev c" by (simp add: strip_def a_def c_def)
  show ?thesis
  proof (cases "c = []")
    case True
    then show ?thesis by (simp add: s)
  next
    case False
    then have hc: "\<not> isspace (hd c)" unfolding c_def by (rule hd_dropWhile)
    from False have ra: "rev a \<noteq> []" by (auto simp add: c_def)
    then have "a \<noteq> []" by simp
    then have ha: "\<not> isspace (hd a)" unfolding a_def by (rule hd_dropWhile)
    have "takeWhile isspace (rev a) @ c = rev a" by (simp add: c_def)
    then have "last c = last (rev a)" using False by (metis last_appendR)
    also have "\<dots> = hd a" using \<open>a \<noteq> []\<close> by (simp add: last_rev)
    finally have lc: "\<not> isspace (last c)" using ha by simp
    from False hc lc show ?thesis by (simp add: s hd_rev last_rev)
  qed
qed

lemma canonical_key_idem [simp]: "canonical_key (canonical_key t) = canonical_key t"
proof -
  have "lower (strip t) = [] \<or>
      (\<not> isspace (hd (lower (strip t))) \<and> \<not> isspace (last (lower (strip t))))"
    using stripped_strip [of t] by (auto simp add: lower_def hd_map last_map)
  then have "strip (lower (strip t)) = lower (strip t)" by (rule strip_stripped)
  then show ?thesis by (simp add: canonical_key_def lower_def)
qed

text \<open>The canonical forms of the keys in the examples.\<close>

lemma canonical_frc1: "canonical_key ''frc1'' = ''frc1''" by code_simp
lemma canonical_frc2: "canonical_key ''frc2'' = ''frc2''" by code_simp
lemma canonical_frc3: "canonical_key ''frc3'' = ''frc3''" by code_simp
lemma canonical_frc7: "canonical_key ''frc7'' = ''frc7''" by code_simp
lemma canonical_FRC1: "canonical_key ''FRC1'' = ''frc1''" by code_simp
lemma canonical_a: "canonical_key ''a'' = ''a''" by code_simp
lemma canonical_b: "canonical_key ''b'' = ''b''" by code_simp

subsection \<open>The table under \<open>get_team_rating\<close>\<close>

lemma map_of_dict_set: "map_of (dict_set d k v) = (map_of d)(k \<mapsto> v)"
  by (simp add: dict_set_def update_conv')

lemma distinct_dict_set: "distinct (map fst d) \<Longrightarrow> distinct (map fst (dict_set d k v))"
  by (simp add: dict_set_def distinct_update)

lemma keys_dict_set: "set (map fst (dict_set d k v)) = insert k (set (map fst d))"
  by (simp add: dict_set_def dom_update)

lemma env_set_rating [simp]: "env (set_rating st k v) = env st"
  by (simp add: set_rating_def)

lemma env_get_team_rating [simp]: "env (fst (get_team_rating st t)) = env st"
  by (simp add: get_team_rating_def Let_def split: option.splits)

lemma table_get_team_rating:
  "map_of (TEAM_RATINGS (fst (get_team_rating st t))) k =
     (if k = canonical_key t \<and> map_of (TEAM_RATINGS st) k = None then Some default_rating
      else map_of (TEAM_RATINGS st) k)"
  by (auto simp add: get_team_rating_def set_rating_def Let_def map_of_dict_set
      split: option.splits)

lemma result_get_team_rating:
  "map_of (TEAM_RATINGS (fst (get_team_rating st t))) (canonical_key t)
     = Some (snd (get_team_rating st t))"
  by (auto simp add: get_team_rating_def set_rating_def Let_def map_of_dict_set
      split: option.splits)

lemma env_get_team_ratings [simp]: "env (fst (get_team_ratings st ts)) = env st"
  by (induction ts arbitrary: st) (simp_all add: split_beta Let_def)

lemma table_get_team_ratings:
  "map_of (TEAM_RATINGS (fst (get_team_ratings st ts))) k =
     (if k \<in> canonical_key ` set ts \<and> map_of (TEAM_RATINGS st) k = None
      then Some default_rating
      else map_of (TEAM_RATINGS st) k)"
  by (induction ts arbitrary: st) (auto simp add: split_beta Let_def table_get_team_rating)

lemma kept_get_team_ratings:
  "map_of (TEAM_RATINGS st) k = Some r \<Longrightarrow>
   map_of (TEAM_RATINGS (fst (get_team_ratings st ts))) k = Some r"
  by (simp add: table_get_team_ratings)

lemma result_get_team_ratings:
  "snd (get_team_ratings st ts) =
     map (\<lambda>t. the (map_of (TEAM_RATINGS (fst (get_team_ratings st ts))) (canonical_key t))) ts"
proof (induction ts arbitrary: st)
  case Nil
  then show ?case by simp
next
  case (Cons t ts)
  have "map_of (TEAM_RATINGS (fst (get_team_ratings (fst (get_team_rating st t)) ts)))
          (canonical_key t) = Some (snd (get_team_rating st t))"
    by (rule kept_get_team_ratings) (rule result_get_team_rating)
  with Cons.IH [of "fst (get_team_rating st t)"] show ?case
    by (simp add: split_beta Let_def)
qed

lemma length_get_team_ratings [simp]: "length (snd (get_team_ratings st ts)) = length ts"
  by (induction ts arbitrary: st) (simp_all add: split_beta Let_def)

text \<open>
  C9. For every belief deviation and every environment whose prior deviation is positive,
  the confidence metric is \<open>100 * clamp(1 - (sigma / sigma0)^2, 0, 1)\<close>, and it lies
  between 0 and 100.
\<close>

theorem confidence_formula:
  assumes "0 < env_sigma e"
  shows "team_confidence_from_sigma s e = 100 * max 0 (min 1 (1 - (s / env_sigma e) ^ 2))
         \<and> 0 \<le> team_confidence_from_sigma s e
         \<and> team_confidence_from_sigma s e \<le> 100"
  using assms by (simp add: team_confidence_from_sigma_def Let_def)

theorem confidence_formula_witness:
  "0 < env_sigma initial_env \<and> team_confidence_from_sigma (25 / 6) initial_env = 75"
  using confidence_formula [of initial_env "25 / 6"]
  by (simp add: initial_env_def power2_eq_square)

subsection \<open>The outcome of a match\<close>

lemma ranks_of_cases:
  "ranks_of a b = (if a = b then [0, 0] else if a > b then [0, 1] else [1, 0])"
  by (simp add: ranks_of_def)

text \<open>
  C7. The update ranks the two alliances \<open>[0, 0]\<close>, a draw, exactly when the two scores
  are equal, and \<open>[0, 1]\<close> or \<open>[1, 0]\<close>, a win and a loss, exactly when they differ. The
  ranks handed to the library's \<open>rate\<close> are these whatever the environment is: with
  \<open>draw_probability\<close> set to 0 and equal scores, \<open>rate\<close> is still called with \<open>[0, 0]\<close>.
\<close>

theorem draw_classification:
  "(ranks_of s1 s2 = [0, 0] \<longleftrightarrow> s1 = s2)
   \<and> (ranks_of s1 s2 = [0, 1] \<longleftrightarrow> s1 > s2)
   \<and> (ranks_of s1 s2 = [1, 0] \<longleftrightarrow> s2 > s1)
   \<and> apply_result rate st ts1 ts2 s1 s2 =
       (let (st1, ratings1) = get_team_ratings st ts1;
            (st2, ratings2) = get_team_ratings st1 ts2
        in case rate (env st) ratings1 ratings2
                  (if s1 = s2 then [0, 0] else if s1 > s2 then [0, 1] else [1, 0]) of
             Inl e \<Rightarrow> (st2, Inl e)
           | Inr (new_ratings1, new_ratings2) \<Rightarrow>
               (write_back (write_back st2 (zip ts1 new_ratings1)) (zip ts2 new_ratings2),
                Inr ()))
   \<and> apply_result rate (st\<lparr>env := (env st)\<lparr>draw_probability := 0\<rparr>\<rparr>) ts1 ts2 s1 s1 =
       (let (st1, ratings1) = get_team_ratings (st\<lparr>env := (env st)\<lparr>draw_probability := 0\<rparr>\<rparr>) ts1;
            (st2, ratings2) = get_team_ratings st1 ts2
        in case rate ((env st)\<lparr>draw_probability := 0\<rparr>) ratings1 ratings2 [0, 0] of
             Inl e \<Rightarrow> (st2, Inl e)
           | Inr (new_ratings1, new_ratings2) \<Rightarrow>
               (write_back (write_back st2 (zip ts1 new_ratings1)) (zip ts2 new_ratings2),
                Inr ()))"
proof -
  have env2: "env (fst (get_team_ratings (fst (get_team_ratings s t1)) t2)) = env s" for s t1 t2
    by simp
  have a: "ranks_of s1 s2 = [0, 0] \<longleftrightarrow> s1 = s2"
    by (simp add: ranks_of_def)
  have b: "ranks_of s1 s2 = [0, 1] \<longleftrightarrow> s1 > s2"
    by (simp add: ranks_of_def)
  have c: "ranks_of s1 s2 = [1, 0] \<longleftrightarrow> s2 > s1"
    by (simp add: ranks_of_def)
  have d: "apply_result rate s t1 t2 x y =
       (let (st1, ratings1) = get_team_ratings s t1;
            (st2, ratings2) = get_team_ratings st1 t2
        in case rate (env s) ratings1 ratings2
                  (if x = y then [0, 0] else if x > y then [0, 1] else [1, 0]) of
             Inl e \<Rightarrow> (st2, Inl e)
           | Inr (new_ratings1, new_ratings2) \<Rightarrow>
               (write_back (write_back st2 (zip t1 new_ratings1)) (zip t2 new_ratings2),
                Inr ()))" for s t1 t2 x y
    using env2 [of s t1 t2]
    by (simp add: apply_result_def Let_def split_beta ranks_of_cases)
  have e: "env (st\<lparr>env := (env st)\<lparr>draw_probability := 0\<rparr>\<rparr>) = (env st)\<lparr>draw_probability := 0\<rparr>"
    by simp
  show ?thesis
    apply (intro conjI)
    apply (rule a) apply (rule b) apply (rule c) apply (rule d)
    apply (subst d) apply (simp only: e if_True refl)
    done
qed

theorem draw_classification_witness:
  "apply_result
     (\<lambda>e ratings1 ratings2 ranks.
        if ranks = [0, 0] then Inr (ratings1, ratings2) else Inl ValueError)
     initial_state [''frc1''] [''frc2''] 3 3
   = (\<lparr>env = initial_env,
       TEAM_RATINGS = [(''frc1'', default_rating), (''frc2'', default_rating)],
       LAST_EVENT_KEY = None, LAST_YEAR = None\<rparr>, Inr ())
   \<and> draw_probability (env initial_state) = 0"
proof -
  have k1: "canonical_key ''frc1'' = ''frc1''" by code_simp
  have k2: "canonical_key ''frc2'' = ''frc2''" by code_simp
  show ?thesis
    using draw_classification
      [of 3 3 "\<lambda>e ratings1 ratings2 ranks.
        if ranks = [0, 0] then Inr (ratings1, ratings2) else Inl ValueError"
        initial_state "[''frc1'']" "[''frc2'']"]
    by (simp add: initial_state_def initial_env_def get_team_rating_def set_rating_def
        dict_set_def k1 k2 Let_def)
qed

subsection \<open>The win probability\<close>

lemma ratings_before:
  "snd (get_team_ratings st ts) =
     map (\<lambda>t. case stored_rating st t of None \<Rightarrow> default_rating | Some r \<Rightarrow> r) ts"
  by (subst result_get_team_ratings)
    (auto simp add: table_get_team_ratings stored_rating_def split: option.splits)

lemma stored_after_lookups:
  "(case stored_rating (fst (get_team_ratings st ts)) t of
      None \<Rightarrow> default_rating | Some r \<Rightarrow> r)
   = (case stored_rating st t of None \<Rightarrow> default_rating | Some r \<Rightarrow> r)"
  by (simp add: stored_rating_def table_get_team_ratings split: option.splits)

lemma predict_match_unfold:
  assumes "teams_or_empty (teams1 d) \<noteq> []" and "teams_or_empty (teams2 d) \<noteq> []"
  shows "predict_match cdf st (Some d) =
    (let st1 = fst (get_team_ratings st (teams_or_empty (teams1 d)));
         st2 = fst (get_team_ratings st1 (teams_or_empty (teams2 d)));
         p = win_probability cdf (env st)
               (snd (get_team_ratings st (teams_or_empty (teams1 d))))
               (snd (get_team_ratings st1 (teams_or_empty (teams2 d))))
     in (st2, Inr \<lparr>team1_win_prob = p, team2_win_prob = 1 - p,
                   prediction_confidence_percent = round2 (\<bar>2 * p - 1\<bar> * 100)\<rparr>))"
  using assms by (simp add: predict_match_def Let_def split_beta)

text \<open>
  C6. For two non-empty alliances \<open>A\<close> and \<open>B\<close>, \<open>predict_match\<close> answers
  \<open>pA = cdf ((muA - muB) / denom)\<close> with \<open>denom = sqrt (N * beta^2 + sum of sigma^2)\<close> and
  \<open>pB = 1 - pA\<close>, so that \<open>pA + pB = 1\<close>; when \<open>denom\<close> is 0 it answers one half for each
  side. The sums are over the beliefs of the referenced teams in the state before the
  call: the stored rating of a team that has one, the prior \<open>(25, 25/3)\<close> of a team that has
  none. The call stores that prior for the teams that had no rating and changes nothing
  else. Over the reals the sum of the two answers is exactly 1, hence within \<open>1e-9\<close> of it.
\<close>

theorem predict_match_formula:
  assumes "teams_or_empty (teams1 d) \<noteq> []" and "teams_or_empty (teams2 d) \<noteq> []"
  shows "\<exists>st' p.
    predict_match cdf st (Some d) = (st', Inr p)
    \<and> (let A = teams_or_empty (teams1 d);
            B = teams_or_empty (teams2 d);
            belief = (\<lambda>t. case stored_rating st t of
                             None \<Rightarrow> \<lparr>mu = 25, sigma = 25 / 3\<rparr>
                           | Some r \<Rightarrow> r);
            muA = (\<Sum>t\<leftarrow>A. mu (belief t));
            muB = (\<Sum>t\<leftarrow>B. mu (belief t));
            var = (\<Sum>t\<leftarrow>A @ B. (sigma (belief t)) ^ 2);
            N = length A + length B;
            denom = sqrt (real N * (beta (env st)) ^ 2 + var)
        in team1_win_prob p = (if denom = 0 then 1 / 2 else cdf ((muA - muB) / denom))
           \<and> team2_win_prob p = 1 - team1_win_prob p
           \<and> team1_win_prob p + team2_win_prob p = 1
           \<and> \<bar>team1_win_prob p + team2_win_prob p - 1\<bar> \<le> 1 / 10 ^ 9
           \<and> prediction_confidence_percent p = round2 (\<bar>2 * team1_win_prob p - 1\<bar> * 100)
           \<and> env st' = env st
           \<and> LAST_EVENT_KEY st' = LAST_EVENT_KEY st
           \<and> LAST_YEAR st' = LAST_YEAR st
           \<and> (\<forall>k. map_of (TEAM_RATINGS st') k =
                 (if k \<in> canonical_key ` set (A @ B) \<and> map_of (TEAM_RATINGS st) k = None
                  then Some \<lparr>mu = 25, sigma = 25 / 3\<rparr>
                  else map_of (TEAM_RATINGS st) k)))"
proof -
  let ?A = "teams_or_empty (teams1 d)"
  let ?B = "teams_or_empty (teams2 d)"
  let ?st1 = "fst (get_team_ratings st ?A)"
  let ?st2 = "fst (get_team_ratings ?st1 ?B)"
  let ?belief = "\<lambda>t. case stored_rating st t of None \<Rightarrow> default_rating | Some r \<Rightarrow> r"
  let ?p = "win_probability cdf (env st) (map ?belief ?A) (map ?belief ?B)"
  have r1: "snd (get_team_ratings st ?A) = map ?belief ?A"
    by (rule ratings_before)
  have r2: "snd (get_team_ratings ?st1 ?B) = map ?belief ?B"
    by (simp add: ratings_before stored_after_lookups)
  have eq: "predict_match cdf st (Some d) =
      (?st2, Inr \<lparr>team1_win_prob = ?p, team2_win_prob = 1 - ?p,
                  prediction_confidence_percent = round2 (\<bar>2 * ?p - 1\<bar> * 100)\<rparr>)"
    using predict_match_unfold [OF assms, of cdf st] by (simp add: Let_def r1 r2)
  have p: "?p =
      (let muA = (\<Sum>t\<leftarrow>?A. mu (?belief t));
           muB = (\<Sum>t\<leftarrow>?B. mu (?belief t));
           var = (\<Sum>t\<leftarrow>?A @ ?B. (sigma (?belief t)) ^ 2);
           N = length ?A + length ?B;
           denom = sqrt (real N * (beta (env st)) ^ 2 + var)
       in (if denom = 0 then 1 / 2 else cdf ((muA - muB) / denom)))"
    by (simp add: win_probability_def Let_def comp_def)
  have ctx: "LAST_EVENT_KEY (fst (get_team_ratings s ts)) = LAST_EVENT_KEY s
      \<and> LAST_YEAR (fst (get_team_ratings s ts)) = LAST_YEAR s" for s ts
    by (induction ts arbitrary: s)
      (simp_all add: split_beta Let_def get_team_rating_def set_rating_def split: option.splits)
  have tab: "map_of (TEAM_RATINGS ?st2) k =
      (if k \<in> canonical_key ` set (?A @ ?B) \<and> map_of (TEAM_RATINGS st) k = None
       then Some default_rating else map_of (TEAM_RATINGS st) k)" for k
    by (auto simp add: table_get_team_ratings)
  show ?thesis
    unfolding default_rating_def [symmetric]
    apply (rule exI [of _ ?st2])
    apply (rule exI [of _ "\<lparr>team1_win_prob = ?p, team2_win_prob = 1 - ?p,
                  prediction_confidence_percent = round2 (\<bar>2 * ?p - 1\<bar> * 100)\<rparr>"])
    apply (rule conjI)
     apply (rule eq)
    using p tab ctx apply (simp add: Let_def)
    done
qed

lemma sqrt_sample: "sqrt (15625 / 144) = 125 / 12"
  by (rule real_sqrt_unique) (simp_all add: power2_eq_square)

theorem predict_match_formula_witness:
  "teams_or_empty (teams1 \<lparr>teams1 = Val [''frc1''], teams2 = Val [''frc2''],
                           score1 = Missing, score2 = Missing\<rparr>) \<noteq> []
   \<and> teams_or_empty (teams2 \<lparr>teams1 = Val [''frc1''], teams2 = Val [''frc2''],
                             score1 = Missing, score2 = Missing\<rparr>) \<noteq> []
   \<and> predict_match sample_cdf
        (initial_state\<lparr>TEAM_RATINGS := [(''frc1'', \<lparr>mu = 30, sigma = 25 / 12\<rparr>)]\<rparr>)
        (Some \<lparr>teams1 = Val [''frc1''], teams2 = Val [''frc2''],
               score1 = Missing, score2 = Missing\<rparr>)
     = (\<lparr>env = initial_env,
         TEAM_RATINGS = [(''frc1'', \<lparr>mu = 30, sigma = 25 / 12\<rparr>),
                         (''frc2'', \<lparr>mu = 25, sigma = 25 / 3\<rparr>)],
         LAST_EVENT_KEY = None, LAST_YEAR = None\<rparr>,
        Inr \<lparr>team1_win_prob = 49 / 74, team2_win_prob = 25 / 74,
             prediction_confidence_percent = 3243 / 100\<rparr>)"
  (is "?a \<and> ?b \<and> ?c")
proof -
  have a: ?a and b: ?b by (simp_all add: teams_or_empty_def)
  obtain st' p where
    eq: "predict_match sample_cdf
        (initial_state\<lparr>TEAM_RATINGS := [(''frc1'', \<lparr>mu = 30, sigma = 25 / 12\<rparr>)]\<rparr>)
        (Some \<lparr>teams1 = Val [''frc1''], teams2 = Val [''frc2''],
               score1 = Missing, score2 = Missing\<rparr>) = (st', Inr p)"
    and p1: "team1_win_prob p = 49 / 74"
    and p2: "team2_win_prob p = 1 - team1_win_prob p"
    and conf: "prediction_confidence_percent p = round2 (\<bar>2 * team1_win_prob p - 1\<bar> * 100)"
    using predict_match_formula [OF a b, of sample_cdf
        "initial_state\<lparr>TEAM_RATINGS := [(''frc1'', \<lparr>mu = 30, sigma = 25 / 12\<rparr>)]\<rparr>"]
    by (auto simp add: Let_def teams_or_empty_def stored_rating_def canonical_frc1
        canonical_frc2 initial_state_def initial_env_def power2_eq_square sqrt_sample
        sample_cdf_def)
  have r: "round2 (\<bar>2 * (49 / 74) - 1\<bar> * 100) = 3243 / 100"
    by (simp add: round2_def Let_def)
  have st: "fst (predict_match sample_cdf
        (initial_state\<lparr>TEAM_RATINGS := [(''frc1'', \<lparr>mu = 30, sigma = 25 / 12\<rparr>)]\<rparr>)
        (Some \<lparr>teams1 = Val [''frc1''], teams2 = Val [''frc2''],
               score1 = Missing, score2 = Missing\<rparr>))
     = \<lparr>env = initial_env,
         TEAM_RATINGS = [(''frc1'', \<lparr>mu = 30, sigma = 25 / 12\<rparr>),
                         (''frc2'', \<lparr>mu = 25, sigma = 25 / 3\<rparr>)],
         LAST_EVENT_KEY = None, LAST_YEAR = None\<rparr>"
    by (simp add: predict_match_def teams_or_empty_def initial_state_def
      get_team_rating_def set_rating_def dict_set_def canonical_frc1 canonical_frc2 Let_def
      default_rating_def split_beta)
  have "p = \<lparr>team1_win_prob = 49 / 74, team2_win_prob = 25 / 74,
             prediction_confidence_percent = 3243 / 100\<rparr>"
  proof -
    have c1: "prediction_confidence_percent p = 3243 / 100"
      using conf r by (simp only: p1)
    have c2: "team2_win_prob p = 25 / 74"
      using p2 by (simp add: p1)
    from p1 c1 c2 show ?thesis by (cases p) simp
  qed
  with eq st have ?c by simp
  with a b show ?thesis by simp
qed

subsection \<open>The environment under an import\<close>

lemma env_load_teams [simp]: "env (fst (load_teams st es)) = env st"
  by (induction es arbitrary: st) (simp_all split: sum.splits)

lemma env_apply_json_to_memory:
  "env (fst (apply_json_to_memory st p flag)) =
     (if flag
      then (case env_from_json (env st) (payload_env p) of None \<Rightarrow> env st | Some e \<Rightarrow> e)
      else env st)"
proof -
  define st2 where
    "st2 = (if flag
            then (case env_from_json (env st) (payload_env p) of
                    None \<Rightarrow> st
                  | Some e \<Rightarrow> st\<lparr>env := e\<rparr>)
            else st)\<lparr>TEAM_RATINGS := []\<rparr>"
  define ts where "ts = (case get (teams p) of None \<Rightarrow> [] | Some ts \<Rightarrow> ts)"
  obtain st3 r where lt: "load_teams st2 ts = (st3, r)"
    by (cases "load_teams st2 ts")
  have "env st3 = env st2"
    using env_load_teams [of st2 ts] lt by simp
  moreover have "env (fst (apply_json_to_memory st p flag)) = env st3"
    using lt by (cases r) (simp_all add: apply_json_to_memory_def Let_def st2_def ts_def)
  ultimately show ?thesis
    by (simp add: st2_def split: option.splits)
qed

lemma env_load_data_from_json:
  "read_file (case get (path body) of None \<Rightarrow> dp | Some q \<Rightarrow> if q = [] then dp else q)
     = Contents pl \<Longrightarrow>
   env (fst (load_data_from_json read_file dp st body)) =
     env (fst (apply_json_to_memory st pl (flag_of (use_env_from_json body))))"
  by (simp add: load_data_from_json_def Let_def split: prod.splits sum.splits)

lemma env_recalculate_values:
  "env (fst (recalculate_values read_file dp st body)) = env st"
proof (cases "read_file dp")
  case (Contents pl)
  obtain st' r where aj: "apply_json_to_memory st pl False = (st', r)"
    by (cases "apply_json_to_memory st pl False")
  with env_apply_json_to_memory [of st pl False] Contents show ?thesis
    by (cases r) (simp_all add: recalculate_values_def Let_def)
qed (simp_all add: recalculate_values_def Let_def)

lemma lower_json: "lower ''json'' = ''json''" by code_simp

text \<open>
  C10 as stated does not hold in its last part: a \<open>null\<close> flag also keeps the
  environment, and so does a flag left out (hence true) when the snapshot has \<open>null\<close> for
  one of the parameters. The third line is the same request on the snapshot with all five
  parameters, where the environment is replaced. Nor is the default true for every
  import: \<open>recalculate\<close> imports the same snapshot, takes no flag, and keeps the environment.
\<close>

theorem environment_kept_without_explicit_false:
  "env (fst (load_data_from_json sample_files ''trueskill_data.json'' initial_state
               \<lparr>path = Missing, use_env_from_json = Null\<rparr>)) = initial_env
   \<and> env (fst (load_data_from_json sample_files ''trueskill_data.json'' initial_state
                 \<lparr>path = Val ''null_mu.json'', use_env_from_json = Missing\<rparr>)) = initial_env
   \<and> env (fst (load_data_from_json sample_files ''trueskill_data.json'' initial_state
                 \<lparr>path = Missing, use_env_from_json = Missing\<rparr>))
       = \<lparr>env_mu = 30, env_sigma = 10, beta = 5, tau = 1 / 10, draw_probability = 0\<rparr>
   \<and> initial_env \<noteq> \<lparr>env_mu = 30, env_sigma = 10, beta = 5, tau = 1 / 10, draw_probability = 0\<rparr>
   \<and> recalculate_values sample_files ''trueskill_data.json'' initial_state
       \<lparr>source = Val ''json''\<rparr>
     = (\<lparr>env = initial_env, TEAM_RATINGS = [(''frc7'', \<lparr>mu = 31, sigma = 2\<rparr>)],
         LAST_EVENT_KEY = None, LAST_YEAR = None\<rparr>,
        Inr \<lparr>recalculate_source = ''json'', recalculate_teams_indexed = 1,
             saved_teams_indexed = 1\<rparr>)"
proof -
  have r: "recalculate_values sample_files ''trueskill_data.json'' initial_state
       \<lparr>source = Val ''json''\<rparr>
     = (\<lparr>env = initial_env, TEAM_RATINGS = [(''frc7'', \<lparr>mu = 31, sigma = 2\<rparr>)],
         LAST_EVENT_KEY = None, LAST_YEAR = None\<rparr>,
        Inr \<lparr>recalculate_source = ''json'', recalculate_teams_indexed = 1,
             saved_teams_indexed = 1\<rparr>)"
    by (simp add: recalculate_values_def lower_json sample_files_def sample_snapshot_def
        apply_json_to_memory_def payload_context_def empty_context_entry_def entry_skipped_def
        canonical_frc7 create_rating_def set_rating_def dict_set_def count_teams_in_payload_def
        initial_state_def Let_def)
  show ?thesis
    unfolding r
    by (simp add: env_load_data_from_json env_apply_json_to_memory sample_files_def flag_of_def
        payload_env_def sample_snapshot_def null_mu_snapshot_def env_from_json_def
        initial_state_def initial_env_def)
qed

text \<open>
  C10, amended. \<open>load_data\<close> on a readable snapshot, for every body: when the flag is left
  out or true and none of the five parameters of the snapshot's \<open>meta.env\<close> is \<open>null\<close>, the
  environment after the call has the parameters the snapshot gives and keeps the current
  value of each parameter the snapshot leaves out; in every other case, that is when the
  flag is false or \<open>null\<close> or a parameter is \<open>null\<close>, the environment is the one before the
  call. \<open>recalculate\<close> never changes the environment.
\<close>

theorem load_data_environment:
  assumes readable:
    "read_file (case get pth of None \<Rightarrow> dp | Some q \<Rightarrow> if q = [] then dp else q) = Contents pl"
  shows
    "env (fst (load_data_from_json read_file dp st \<lparr>path = pth, use_env_from_json = f\<rparr>)) =
       (let j = payload_env pl in
          if (f = Missing \<or> f = Val True)
             \<and> Null \<notin> set [json_mu j, json_sigma j, json_beta j, json_tau j,
                            json_draw_probability j]
          then
            \<lparr>env_mu = (case json_mu j of Val v \<Rightarrow> v | Missing \<Rightarrow> env_mu (env st)
                         | Null \<Rightarrow> env_mu (env st)),
             env_sigma = (case json_sigma j of Val v \<Rightarrow> v | Missing \<Rightarrow> env_sigma (env st)
                            | Null \<Rightarrow> env_sigma (env st)),
             beta = (case json_beta j of Val v \<Rightarrow> v | Missing \<Rightarrow> beta (env st)
                       | Null \<Rightarrow> beta (env st)),
             tau = (case json_tau j of Val v \<Rightarrow> v | Missing \<Rightarrow> tau (env st)
                      | Null \<Rightarrow> tau (env st)),
             draw_probability =
               (case json_draw_probability j of Val v \<Rightarrow> v
                | Missing \<Rightarrow> draw_probability (env st)
                | Null \<Rightarrow> draw_probability (env st))\<rparr>
          else env st)
     \<and> env (fst (recalculate_values other_file dp st recalculate)) = env st"
proof -
  have flag: "flag_of f \<longleftrightarrow> f = Missing \<or> f = Val True"
    by (cases f) (simp_all add: flag_of_def)
  have params: "env_from_json cur j =
      (if Null \<notin> set [json_mu j, json_sigma j, json_beta j, json_tau j, json_draw_probability j]
       then Some
         \<lparr>env_mu = (case json_mu j of Val v \<Rightarrow> v | Missing \<Rightarrow> env_mu cur | Null \<Rightarrow> env_mu cur),
          env_sigma = (case json_sigma j of Val v \<Rightarrow> v | Missing \<Rightarrow> env_sigma cur
                         | Null \<Rightarrow> env_sigma cur),
          beta = (case json_beta j of Val v \<Rightarrow> v | Missing \<Rightarrow> beta cur | Null \<Rightarrow> beta cur),
          tau = (case json_tau j of Val v \<Rightarrow> v | Missing \<Rightarrow> tau cur | Null \<Rightarrow> tau cur),
          draw_probability =
            (case json_draw_probability j of Val v \<Rightarrow> v | Missing \<Rightarrow> draw_probability cur
             | Null \<Rightarrow> draw_probability cur)\<rparr>
       else None)" for cur j
    by (cases "json_mu j"; cases "json_sigma j"; cases "json_beta j"; cases "json_tau j";
        cases "json_draw_probability j") (simp_all add: env_from_json_def)
  have "env (fst (load_data_from_json read_file dp st \<lparr>path = pth, use_env_from_json = f\<rparr>)) =
      env (fst (apply_json_to_memory st pl (flag_of f)))"
    using readable by (simp add: env_load_data_from_json)
  then show ?thesis
    by (simp add: env_apply_json_to_memory flag params Let_def env_recalculate_values)
qed

theorem load_data_environment_witness:
  "sample_files (case get Missing of None \<Rightarrow> ''trueskill_data.json''
                 | Some q \<Rightarrow> if q = [] then ''trueskill_data.json'' else q)
     = Contents sample_snapshot
   \<and> env (fst (load_data_from_json sample_files ''trueskill_data.json'' initial_state
                \<lparr>path = Missing, use_env_from_json = Missing\<rparr>))
       = \<lparr>env_mu = 30, env_sigma = 10, beta = 5, tau = 1 / 10, draw_probability = 0\<rparr>
   \<and> env (fst (load_data_from_json sample_files ''trueskill_data.json'' initial_state
                \<lparr>path = Missing, use_env_from_json = Val False\<rparr>))
       = initial_env"
  (is "?a \<and> ?b \<and> ?c")
proof -
  have a: ?a by (simp add: sample_files_def)
  have j: "payload_env sample_snapshot =
       \<lparr>json_mu = Val 30, json_sigma = Val 10, json_beta = Val 5, json_tau = Val (1 / 10),
        json_draw_probability = Val 0\<rparr>"
    by (simp add: payload_env_def sample_snapshot_def)
  have b: ?b
    using load_data_environment
      [where read_file = sample_files and pth = Missing and dp = "''trueskill_data.json''"
         and pl = sample_snapshot and st = initial_state and f = Missing, OF a]
    by (simp add: j Let_def)
  have c: ?c
    using load_data_environment
      [where read_file = sample_files and pth = Missing and dp = "''trueskill_data.json''"
         and pl = sample_snapshot and st = initial_state and f = "Val False", OF a]
    by (simp add: j Let_def initial_state_def)
  from a b c show ?thesis by simp
qed

subsection \<open>The keys of the table\<close>

lemma touched_append [simp]: "touched (xs @ ys) = touched xs \<union> touched ys"
  by (auto simp add: touched_def)

lemma touched_Nil [simp]: "touched [] = {}"
  by (simp add: touched_def)

lemma touched_cong: "set xs = set ys \<Longrightarrow> touched xs = touched ys"
  by (simp add: touched_def)

lemma touched_concat_sort_key:
  "touched (concat (map g (sort_key f xs))) = touched (concat (map g xs))"
  by (rule touched_cong) simp

lemma stored_keys_set_rating [simp]:
  "stored_keys (set_rating st k v) = insert k (stored_keys st)"
  using keys_dict_set [of "TEAM_RATINGS st" k v]
  by (simp add: stored_keys_def set_rating_def)

lemma stored_keys_updates [simp]:
  "stored_keys (st\<lparr>env := e\<rparr>) = stored_keys st"
  "stored_keys (st\<lparr>LAST_EVENT_KEY := ek\<rparr>) = stored_keys st"
  "stored_keys (st\<lparr>LAST_YEAR := yr\<rparr>) = stored_keys st"
  "stored_keys (st\<lparr>TEAM_RATINGS := []\<rparr>) = {}"
  by (simp_all add: stored_keys_def)

lemma stored_keys_get_team_rating:
  "stored_keys (fst (get_team_rating st u)) = insert (canonical_key u) (stored_keys st)"
proof (cases "map_of (TEAM_RATINGS st) (canonical_key u)")
  case None
  then show ?thesis by (simp add: get_team_rating_def Let_def)
next
  case (Some r)
  then have "canonical_key u \<in> stored_keys st"
    by (auto simp add: stored_keys_def dest: map_of_SomeD intro: rev_image_eqI)
  with Some show ?thesis by (auto simp add: get_team_rating_def Let_def)
qed

lemma stored_keys_get_team_ratings:
  "stored_keys (fst (get_team_ratings st us)) = stored_keys st \<union> canonical_key ` set us"
  by (induction us arbitrary: st)
    (auto simp add: split_beta Let_def stored_keys_get_team_rating)

lemma stored_keys_write_back:
  "stored_keys (write_back st kvs) = stored_keys st \<union> fst ` set kvs"
  by (induction kvs arbitrary: st) force+

lemma stored_keys_apply_result:
  "stored_keys (fst (apply_result rate st ts1 ts2 s1 s2))
     \<subseteq> stored_keys st \<union> touched (ts1 @ ts2)"
  by (auto simp add: apply_result_def Let_def split_beta stored_keys_get_team_ratings
      stored_keys_write_back touched_def split: sum.splits dest: set_zip_leftD)

lemma stored_keys_push_loop:
  "stored_keys (fst (push_loop rate st ms n))
     \<subseteq> stored_keys st \<union> touched (concat (map request_teams ms))"
proof (induction ms arbitrary: st n)
  case Nil
  then show ?case by simp
next
  case (Cons m ms)
  show ?case
  proof (cases "push_skips m")
    case True
    with Cons.IH [of st n] show ?thesis by auto
  next
    case False
    then have t1: "the (get (teams1 m)) = teams_or_empty (teams1 m)"
      and t2: "the (get (teams2 m)) = teams_or_empty (teams2 m)"
      by (auto simp add: push_skips_def no_teams_def teams_or_empty_def)
    obtain st' r where ar: "apply_result rate st (teams_or_empty (teams1 m))
        (teams_or_empty (teams2 m)) (the (get (score1 m))) (the (get (score2 m))) = (st', r)"
      by (cases "apply_result rate st (teams_or_empty (teams1 m))
        (teams_or_empty (teams2 m)) (the (get (score1 m))) (the (get (score2 m)))")
    from stored_keys_apply_result [of rate st "teams_or_empty (teams1 m)"
        "teams_or_empty (teams2 m)" "the (get (score1 m))" "the (get (score2 m))"] ar
    have k: "stored_keys st' \<subseteq> stored_keys st \<union> touched (request_teams m)"
      by (simp add: request_teams_def)
    show ?thesis
    proof (cases r)
      case (Inl e)
      with False ar k show ?thesis by (auto simp add: t1 t2)
    next
      case (Inr u)
      with False ar k Cons.IH [of st' "n + 1"] show ?thesis by (auto simp add: t1 t2)
    qed
  qed
qed

lemma stored_keys_push_results:
  "stored_keys (fst (push_results rate st data))
     \<subseteq> stored_keys st \<union> touched (teams_named dp (PushResults data))"
proof (cases data)
  case (NotAList j)
  then show ?thesis by (simp add: push_results_def)
next
  case (JsonList ms)
  obtain st' r where pl: "push_loop rate st ms 0 = (st', r)"
    by (cases "push_loop rate st ms 0")
  with stored_keys_push_loop [of rate st ms 0] JsonList show ?thesis
    by (cases r) (simp_all add: push_results_def)
qed

lemma stored_keys_predict_match:
  "stored_keys (fst (predict_match cdf st data))
     \<subseteq> stored_keys st \<union> touched (teams_named dp (PredictMatch data))"
  by (cases data)
    (auto simp add: predict_match_def Let_def split_beta stored_keys_get_team_ratings
      request_teams_def touched_def)

lemma stored_keys_predict_batch_loop:
  "stored_keys (fst (predict_batch_loop cdf st ms))
     \<subseteq> stored_keys st \<union> touched (concat (map request_teams ms))"
proof (induction ms arbitrary: st)
  case Nil
  then show ?case by simp
next
  case (Cons m ms)
  show ?case
  proof (cases "teams_or_empty (teams1 m) = [] \<or> teams_or_empty (teams2 m) = []")
    case True
    with Cons.IH [of st] show ?thesis by (auto simp add: Let_def split_beta)
  next
    case False
    let ?st2 = "fst (get_team_ratings (fst (get_team_ratings st (teams_or_empty (teams1 m))))
                  (teams_or_empty (teams2 m)))"
    have "stored_keys ?st2 \<subseteq> stored_keys st \<union> touched (request_teams m)"
      by (auto simp add: stored_keys_get_team_ratings request_teams_def touched_def)
    with False Cons.IH [of ?st2] show ?thesis
      by (auto simp add: Let_def split_beta)
  qed
qed

lemma stored_keys_predict_batch:
  "stored_keys (fst (predict_batch cdf st data))
     \<subseteq> stored_keys st \<union> touched (teams_named dp (PredictBatch data))"
  using stored_keys_predict_batch_loop [of cdf st]
  by (cases data) (auto simp add: predict_batch_def split_beta)

lemma stored_keys_predict_team [simp]: "fst (predict_team st t) = st"
  by (simp add: predict_team_def Let_def split: option.splits)

lemma stored_keys_rebuild_step:
  assumes "rebuild_step rate ek yr st m = Some (st', r)"
  shows "stored_keys st' \<subseteq> stored_keys st \<union> touched (match_teams m)"
proof -
  from assms obtain a where a: "get (alliances m) = Some a"
    by (cases "get (alliances m)") (simp_all add: rebuild_step_def no_alliances_def Let_def)
  show ?thesis
  proof (cases "get_default (red a) empty_alliance")
    case None
    with assms a show ?thesis
      by (simp add: rebuild_step_def Let_def split: if_splits)
  next
    case red: (Some ra)
    show ?thesis
    proof (cases "get_default (blue a) empty_alliance")
      case None
      with assms a red show ?thesis
        by (simp add: rebuild_step_def Let_def split: if_splits)
    next
      case blue: (Some ba)
      have ra: "get_default (team_keys ra) [] = Some ts \<Longrightarrow> alliance_teams (red a) = ts" for ts
        using red
        by (cases "red a"; cases "team_keys ra")
          (auto simp add: alliance_teams_def empty_alliance_def)
      have ba: "get_default (team_keys ba) [] = Some ts \<Longrightarrow> alliance_teams (blue a) = ts" for ts
        using blue
        by (cases "blue a"; cases "team_keys ba")
          (auto simp add: alliance_teams_def empty_alliance_def)
      show ?thesis
      proof (cases "get_default (team_keys ra) []")
        case None
        with assms a red blue show ?thesis
          by (simp add: rebuild_step_def Let_def split: if_splits)
      next
        case t1: (Some ts1)
        show ?thesis
        proof (cases "get_default (team_keys ba) []")
          case None
          with assms a red blue t1 ra [OF t1] show ?thesis
            by (auto simp add: rebuild_step_def Let_def match_teams_def
                stored_keys_get_team_ratings touched_def split: if_splits)
        next
          case t2: (Some ts2)
          obtain st2 r2 where ar: "apply_result rate st ts1 ts2
              (the (get (score ra))) (the (get (score ba))) = (st2, r2)"
            by (cases "apply_result rate st ts1 ts2 (the (get (score ra))) (the (get (score ba)))")
          from stored_keys_apply_result
            [of rate st ts1 ts2 "the (get (score ra))" "the (get (score ba))"] ar
          have k: "stored_keys st2 \<subseteq> stored_keys st \<union> touched (match_teams m)"
            by (simp add: match_teams_def a ra [OF t1] ba [OF t2])
          from assms a red blue t1 t2 ar k show ?thesis
            by (cases r2) (auto simp add: rebuild_step_def Let_def split: if_splits)
        qed
      qed
    qed
  qed
qed

lemma stored_keys_rebuild_loop:
  "stored_keys (fst (rebuild_loop rate ek yr st ms))
     \<subseteq> stored_keys st \<union> touched (concat (map match_teams ms))"
proof (induction ms arbitrary: st)
  case Nil
  then show ?case by simp
next
  case (Cons m ms)
  show ?case
  proof (cases "rebuild_step rate ek yr st m")
    case None
    with Cons.IH [of st] show ?thesis by auto
  next
    case (Some q)
    obtain st' r where q: "q = (st', r)" by (cases q)
    from stored_keys_rebuild_step [of rate ek yr st m st' r] Some q
    have k: "stored_keys st' \<subseteq> stored_keys st \<union> touched (match_teams m)" by simp
    show ?thesis
    proof (cases r)
      case (Inl e)
      with Some q k show ?thesis by auto
    next
      case (Inr u)
      with Some q k Cons.IH [of st'] show ?thesis by auto
    qed
  qed
qed

lemma stored_keys_replay:
  "stored_keys (fst (replay rate ek yr st matches))
     \<subseteq> (case matches of JsonList ms \<Rightarrow> touched (concat (map match_teams ms))
         | NotAList j \<Rightarrow> {})"
proof (cases matches)
  case (NotAList j)
  then show ?thesis by (cases j) (simp_all add: replay_def Let_def)
next
  case (JsonList ms)
  with stored_keys_rebuild_loop [of rate ek yr "st\<lparr>TEAM_RATINGS := []\<rparr>" "sort_by_time ms"]
  show ?thesis
    by (simp add: replay_def Let_def sort_by_time_def touched_concat_sort_key)
qed

lemma stored_keys_update_ratings:
  "stored_keys (fst (update_ratings rate K fm fe st data))
     \<subseteq> stored_keys st \<union> touched (teams_named dp (Update fm fe data))"
proof (cases data)
  case None
  then show ?thesis by (simp add: update_ratings_def)
next
  case (Some d)
  let ?ek = "given_key (request_event_key d)"
  let ?yr = "given_year (request_year d)"
  show ?thesis
  proof (cases "(?ek \<noteq> None \<and> ?yr \<noteq> None) \<or> (?ek = None \<and> ?yr = None) \<or> K = []")
    case True
    with Some show ?thesis by (auto simp add: update_ratings_def Let_def)
  next
    case False
    show ?thesis
    proof (cases "gather fm fe ?ek ?yr")
      case (Inl f)
      with Some False show ?thesis by (auto simp add: update_ratings_def Let_def)
    next
      case (Inr matches)
      obtain st' r where rp: "replay rate ?ek ?yr st matches = (st', r)"
        by (cases "replay rate ?ek ?yr st matches")
      from stored_keys_replay [of rate ?ek ?yr st matches] rp
      have "stored_keys st'
          \<subseteq> (case matches of JsonList ms \<Rightarrow> touched (concat (map match_teams ms))
             | NotAList j \<Rightarrow> {})"
        by simp
      with Some False Inr rp show ?thesis
        by (cases r; cases matches) (auto simp add: update_ratings_def Let_def)
    qed
  qed
qed

lemma stored_keys_load_teams:
  "stored_keys (fst (load_teams st es))
     \<subseteq> stored_keys st
        \<union> touched (concat (map (\<lambda>e. case get (team_key e) of None \<Rightarrow> [] | Some k \<Rightarrow> [k]) es))"
proof (induction es arbitrary: st)
  case Nil
  then show ?case by simp
next
  case (Cons e es)
  show ?case
  proof (cases "entry_skipped e")
    case True
    with Cons.IH [of st] show ?thesis by auto
  next
    case False
    then obtain k where k: "team_key e = Val k"
      by (cases "team_key e") (auto simp add: entry_skipped_def canonical_key_def strip_def lower_def)
    show ?thesis
    proof (cases "create_rating (the (get (entry_mu e))) (the (get (entry_sigma e)))")
      case (Inl x)
      with False show ?thesis by auto
    next
      case (Inr r)
      with False k Cons.IH [of "set_rating st (canonical_key k) r"] show ?thesis
        by (auto simp add: touched_def)
    qed
  qed
qed

lemma stored_keys_apply_json_to_memory:
  "stored_keys (fst (apply_json_to_memory st p flag)) \<subseteq> touched (snapshot_teams p)"
proof -
  define st2 where
    "st2 = (if flag
            then (case env_from_json (env st) (payload_env p) of
                    None \<Rightarrow> st
                  | Some e \<Rightarrow> st\<lparr>env := e\<rparr>)
            else st)\<lparr>TEAM_RATINGS := []\<rparr>"
  define ts where "ts = (case get (teams p) of None \<Rightarrow> [] | Some ts \<Rightarrow> ts)"
  obtain st3 r where lt: "load_teams st2 ts = (st3, r)"
    by (cases "load_teams st2 ts")
  have "stored_keys st2 = {}" by (simp add: st2_def)
  with stored_keys_load_teams [of st2 ts] lt
  have "stored_keys st3 \<subseteq> touched (snapshot_teams p)"
    by (simp add: snapshot_teams_def ts_def split: option.splits)
  moreover have "stored_keys (fst (apply_json_to_memory st p flag)) = stored_keys st3"
    using lt by (cases r) (simp_all add: apply_json_to_memory_def Let_def st2_def ts_def)
  ultimately show ?thesis by simp
qed

lemma stored_keys_load_data_from_json:
  "stored_keys (fst (load_data_from_json read_file dp st body))
     \<subseteq> stored_keys st \<union> touched (teams_named dp (LoadData read_file body))"
proof -
  let ?p = "case get (path body) of None \<Rightarrow> dp | Some q \<Rightarrow> if q = [] then dp else q"
  show ?thesis
  proof (cases "read_file ?p")
    case (Contents pl)
    obtain st' r where aj: "apply_json_to_memory st pl (flag_of (use_env_from_json body)) = (st', r)"
      by (cases "apply_json_to_memory st pl (flag_of (use_env_from_json body))")
    with stored_keys_apply_json_to_memory [of st pl "flag_of (use_env_from_json body)"] Contents
    show ?thesis
      by (cases r) (auto simp add: load_data_from_json_def Let_def)
  qed (simp_all add: load_data_from_json_def Let_def)
qed

lemma stored_keys_recalculate_values:
  "stored_keys (fst (recalculate_values read_file dp st body))
     \<subseteq> stored_keys st \<union> touched (teams_named dp (Recalculate read_file body))"
proof (cases "read_file dp")
  case (Contents pl)
  obtain st' r where aj: "apply_json_to_memory st pl False = (st', r)"
    by (cases "apply_json_to_memory st pl False")
  with stored_keys_apply_json_to_memory [of st pl False] Contents
  show ?thesis
    by (cases r) (auto simp add: recalculate_values_def Let_def)
qed (simp_all add: recalculate_values_def Let_def)

lemma stored_keys_serve:
  "stored_keys (serve rate cdf K dp st r) \<subseteq> stored_keys st \<union> touched (teams_named dp r)"
proof (cases r)
  case (Update fm fe data)
  then show ?thesis using stored_keys_update_ratings [of rate K fm fe st data dp] by simp
next
  case (PushResults data)
  then show ?thesis using stored_keys_push_results [of rate st data dp] by simp
next
  case (PredictTeam t)
  then show ?thesis by simp
next
  case (PredictMatch data)
  then show ?thesis using stored_keys_predict_match [of cdf st data dp] by simp
next
  case (PredictBatch data)
  then show ?thesis using stored_keys_predict_batch [of cdf st data dp] by simp
next
  case (Recalculate read_file body)
  then show ?thesis using stored_keys_recalculate_values [of read_file dp st body] by simp
next
  case (LoadData read_file body)
  then show ?thesis using stored_keys_load_data_from_json [of read_file dp st body] by simp
qed

lemma stored_keys_run:
  "stored_keys (run rate cdf K dp st rs)
     \<subseteq> stored_keys st \<union> touched (concat (map (teams_named dp) rs))"
proof (induction rs arbitrary: st)
  case Nil
  then show ?case by (simp add: run_def)
next
  case (Cons r rs)
  from Cons.IH [of "serve rate cdf K dp st r"] stored_keys_serve [of rate cdf K dp st r]
  show ?case by (auto simp add: run_def)
qed

lemma touched_avoids:
  assumes "\<forall>u\<in>set us. canonical_key u \<noteq> canonical_key t"
  shows "canonical_key t \<notin> touched us"
proof
  assume "canonical_key t \<in> touched us"
  then consider u where "u \<in> set us" "canonical_key t = u"
    | u where "u \<in> set us" "canonical_key t = canonical_key u"
    by (auto simp add: touched_def)
  then show False
  proof cases
    case 1
    then have "canonical_key u = canonical_key t" by (metis canonical_key_idem)
    with 1 assms show False by auto
  next
    case 2
    with assms show False by auto
  qed
qed

subsection \<open>The first reference to a team\<close>

lemma state_predict_match:
  "teams_or_empty (teams1 d) \<noteq> [] \<Longrightarrow> teams_or_empty (teams2 d) \<noteq> [] \<Longrightarrow>
   fst (predict_match cdf st (Some d)) =
     fst (get_team_ratings (fst (get_team_ratings st (teams_or_empty (teams1 d))))
            (teams_or_empty (teams2 d)))"
  by (simp add: predict_match_def Let_def split_beta)

lemma never_named_not_stored:
  assumes "\<forall>r\<in>set requests. \<forall>u\<in>set (teams_named dp r). canonical_key u \<noteq> canonical_key t"
  shows "map_of (TEAM_RATINGS (run rate cdf K dp initial_state requests)) (canonical_key t) = None"
proof -
  from assms have "\<forall>u\<in>set (concat (map (teams_named dp) requests)).
      canonical_key u \<noteq> canonical_key t"
    by auto
  then have "canonical_key t \<notin> touched (concat (map (teams_named dp) requests))"
    by (rule touched_avoids)
  moreover have "stored_keys initial_state = {}"
    by (simp add: stored_keys_def initial_state_def)
  ultimately have "canonical_key t \<notin> stored_keys (run rate cdf K dp initial_state requests)"
    using stored_keys_run [of rate cdf K dp initial_state requests] by auto
  then show ?thesis
    by (simp add: stored_keys_def map_of_eq_None_iff)
qed

text \<open>
  C3 as the specification has it does not hold. A team of an imported snapshot is found
  although no update and no prediction has referenced it. After the import has installed
  the snapshot's environment, with prior mean 30 and prior deviation 10, the first
  reference to a team creates the belief \<open>(25, 25/3)\<close>. The lookup of the empty key is
  answered with the error for a missing parameter.
\<close>

theorem first_reference_ignores_environment:
  "(let st = run sample_rate sample_cdf ''key'' ''trueskill_data.json'' initial_state
               [LoadData sample_files \<lparr>path = Missing, use_env_from_json = Missing\<rparr>];
        r = snd (get_team_rating st ''frc1'')
    in predict_team st (Some ''frc7'')
         = (st, Inr \<lparr>team = ''frc7'', report_mu = 31, report_sigma = 2,
                     report_conservative = 25, report_confidence = 96\<rparr>)
       \<and> map_of (TEAM_RATINGS st) ''frc1'' = None
       \<and> env_mu (env st) = 30 \<and> env_sigma (env st) = 10
       \<and> r = \<lparr>mu = 25, sigma = 25 / 3\<rparr>
       \<and> r \<noteq> \<lparr>mu = env_mu (env st), sigma = env_sigma (env st)\<rparr>)
   \<and> predict_team initial_state (Some []) = (initial_state, Inl BadRequest)"
  by (simp add: run_def load_data_from_json_def sample_files_def sample_snapshot_def flag_of_def
      apply_json_to_memory_def payload_env_def payload_context_def env_from_json_def
      empty_context_entry_def initial_state_def Let_def get_team_rating_def default_rating_def
      entry_skipped_def create_rating_def set_rating_def dict_set_def canonical_frc7
      canonical_frc1 predict_team_def team_confidence_from_sigma_def round2_def
      power2_eq_square)

text \<open>
  C3, amended. Let the service have served any requests since its start, none of which
  brought the team: no match of an update, no result pushed, no alliance of a prediction
  and no entry of an imported snapshot has a key with the canonical form of \<open>t\<close>. Then
  \<open>predict_team\<close> for a non-empty \<open>t\<close> answers "not found" and leaves the state as it is;
  the first \<open>get_team_rating\<close>, and so the first \<open>predict_match\<close> that names the team, stores
  the belief \<open>(25, 25/3)\<close> under the canonical key, whatever the active environment is. The
  belief is the environment's \<open>(mu0, sigma0)\<close> when the environment has the library's
  defaults.
\<close>

theorem first_reference:
  assumes "\<forall>r\<in>set requests. \<forall>u\<in>set (teams_named dp r). canonical_key u \<noteq> canonical_key t"
    and "t \<noteq> []"
  shows
    "(let st = run rate cdf K dp initial_state requests in
        predict_team st (Some t) = (st, Inl NotFound)
        \<and> get_team_rating st t =
            (set_rating st (canonical_key t) \<lparr>mu = 25, sigma = 25 / 3\<rparr>,
             \<lparr>mu = 25, sigma = 25 / 3\<rparr>)
        \<and> stored_rating (fst (get_team_rating st t)) t = Some \<lparr>mu = 25, sigma = 25 / 3\<rparr>
        \<and> (teams_or_empty (teams1 d) \<noteq> [] \<and> teams_or_empty (teams2 d) \<noteq> []
             \<and> t \<in> set (teams_or_empty (teams1 d) @ teams_or_empty (teams2 d)) \<longrightarrow>
             stored_rating (fst (predict_match cdf st (Some d))) t
               = Some \<lparr>mu = 25, sigma = 25 / 3\<rparr>)
        \<and> (env_mu (env st) = 25 \<and> env_sigma (env st) = 25 / 3 \<longrightarrow>
             snd (get_team_rating st t)
               = \<lparr>mu = env_mu (env st), sigma = env_sigma (env st)\<rparr>))"
proof -
  define st where "st = run rate cdf K dp initial_state requests"
  have none: "map_of (TEAM_RATINGS st) (canonical_key t) = None"
    unfolding st_def using assms(1) by (rule never_named_not_stored)
  have a: "predict_team st (Some t) = (st, Inl NotFound)"
    using assms(2) none by (simp add: predict_team_def Let_def)
  have b: "get_team_rating st t =
      (set_rating st (canonical_key t) \<lparr>mu = 25, sigma = 25 / 3\<rparr>, \<lparr>mu = 25, sigma = 25 / 3\<rparr>)"
    using none by (simp add: get_team_rating_def Let_def default_rating_def)
  have c: "stored_rating (fst (get_team_rating st t)) t = Some \<lparr>mu = 25, sigma = 25 / 3\<rparr>"
    by (simp add: b stored_rating_def set_rating_def map_of_dict_set)
  have d: "stored_rating (fst (predict_match cdf st (Some d))) t = Some \<lparr>mu = 25, sigma = 25 / 3\<rparr>"
    if "teams_or_empty (teams1 d) \<noteq> []" "teams_or_empty (teams2 d) \<noteq> []"
      "t \<in> set (teams_or_empty (teams1 d) @ teams_or_empty (teams2 d))"
    using that none
    by (auto simp add: state_predict_match stored_rating_def table_get_team_ratings
        default_rating_def)
  show ?thesis
    unfolding Let_def st_def [symmetric]
    using a b c d by simp
qed

theorem first_reference_witness:
  "''frc3'' \<noteq> []
   \<and> (let st = run sample_rate sample_cdf ''key'' ''trueskill_data.json'' initial_state
                 [PredictMatch (Some \<lparr>teams1 = Val [''frc1''], teams2 = Val [''frc2''],
                                       score1 = Missing, score2 = Missing\<rparr>),
                  PushResults (JsonList [\<lparr>teams1 = Val [''frc1''], teams2 = Val [''frc2''],
                                          score1 = Val 3, score2 = Val 1\<rparr>])]
      in TEAM_RATINGS st = [(''frc1'', \<lparr>mu = 26, sigma = 25 / 3\<rparr>),
                            (''frc2'', \<lparr>mu = 24, sigma = 25 / 3\<rparr>)]
         \<and> predict_team st (Some ''frc3'') = (st, Inl NotFound)
         \<and> snd (get_team_rating st ''frc3'') = \<lparr>mu = 25, sigma = 25 / 3\<rparr>
         \<and> stored_rating (fst (get_team_rating st ''frc3'')) ''frc3''
             = Some \<lparr>mu = 25, sigma = 25 / 3\<rparr>)"
proof -
  let ?reqs = "[PredictMatch (Some \<lparr>teams1 = Val [''frc1''], teams2 = Val [''frc2''],
                                       score1 = Missing, score2 = Missing\<rparr>),
                PushResults (JsonList [\<lparr>teams1 = Val [''frc1''], teams2 = Val [''frc2''],
                                          score1 = Val 3, score2 = Val 1\<rparr>])]"
  have h: "\<forall>r\<in>set ?reqs. \<forall>u\<in>set (teams_named ''trueskill_data.json'' r).
      canonical_key u \<noteq> canonical_key ''frc3''"
    by (simp add: request_teams_def teams_or_empty_def canonical_frc1 canonical_frc2
        canonical_frc3)
  have n: "''frc3'' \<noteq> []" by simp
  have st: "TEAM_RATINGS (run sample_rate sample_cdf ''key'' ''trueskill_data.json''
        initial_state ?reqs)
      = [(''frc1'', \<lparr>mu = 26, sigma = 25 / 3\<rparr>), (''frc2'', \<lparr>mu = 24, sigma = 25 / 3\<rparr>)]"
    by (simp add: run_def predict_match_def teams_or_empty_def initial_state_def
        get_team_rating_def set_rating_def dict_set_def canonical_frc1 canonical_frc2 Let_def
        default_rating_def push_results_def push_skips_def no_teams_def apply_result_def
        ranks_of_def sample_rate_def split_beta)
  let ?st = "run sample_rate sample_cdf ''key'' ''trueskill_data.json'' initial_state ?reqs"
  note fr = first_reference [OF h n, of sample_rate sample_cdf "''key''", unfolded Let_def]
  from fr have a: "predict_team ?st (Some ''frc3'') = (?st, Inl NotFound)"
    by (rule conjunct1)
  from fr have b: "get_team_rating ?st ''frc3'' =
      (set_rating ?st (canonical_key ''frc3'') \<lparr>mu = 25, sigma = 25 / 3\<rparr>,
       \<lparr>mu = 25, sigma = 25 / 3\<rparr>)"
    by (rule conjunct2 [THEN conjunct1])
  from fr have c: "stored_rating (fst (get_team_rating ?st ''frc3'')) ''frc3''
      = Some \<lparr>mu = 25, sigma = 25 / 3\<rparr>"
    by (rule conjunct2 [THEN conjunct2, THEN conjunct1])
  from b have b': "snd (get_team_rating ?st ''frc3'') = \<lparr>mu = 25, sigma = 25 / 3\<rparr>"
    by (simp only: snd_conv)
  show ?thesis
    unfolding Let_def
    by (intro conjI) (rule n, rule st, rule a, rule b', rule c)
qed

subsection \<open>The key of the write-back\<close>

text \<open>
  C1 does not hold for \<open>push_results\<close> (nor for \<open>update_ratings\<close>, which has the same
  statements): the lookup creates the prior under the canonical key, and the write-back
  stores the new rating under the key as it was given. On an empty table, one result
  between \<open>FRC1\<close> and \<open>frc2\<close> leaves three entries, two of them for the team \<open>frc1\<close>, and
  the lookup of \<open>FRC1\<close> reports the prior, not the rating the result has produced.
\<close>

theorem write_back_keeps_given_key:
  assumes "TEAM_RATINGS st = []"
    and "rate (env st) [default_rating] [default_rating] [0, 1] = Inr ([r1], [r2])"
  shows
    "push_results rate st
       (JsonList [\<lparr>teams1 = Val [''FRC1''], teams2 = Val [''frc2''],
                   score1 = Val 1, score2 = Val 0\<rparr>])
     = (st\<lparr>TEAM_RATINGS := [(''frc1'', default_rating), (''frc2'', r2), (''FRC1'', r1)]\<rparr>,
        Inr 1)
     \<and> canonical_key ''FRC1'' = canonical_key ''frc1''
     \<and> \<not> distinct (map canonical_key (map fst
           [(''frc1'', default_rating), (''frc2'', r2), (''FRC1'', r1)]))
     \<and> stored_rating
           (st\<lparr>TEAM_RATINGS := [(''frc1'', default_rating), (''frc2'', r2), (''FRC1'', r1)]\<rparr>)
           ''FRC1'' = Some default_rating"
  using assms
  by (simp add: push_results_def push_skips_def no_teams_def apply_result_def ranks_of_def
      get_team_rating_def set_rating_def dict_set_def canonical_FRC1 canonical_frc1
      canonical_frc2 Let_def stored_rating_def)

theorem write_back_keeps_given_key_witness:
  "TEAM_RATINGS initial_state = []
   \<and> sample_rate (env initial_state) [default_rating] [default_rating] [0, 1]
       = Inr ([\<lparr>mu = 26, sigma = 25 / 3\<rparr>], [\<lparr>mu = 24, sigma = 25 / 3\<rparr>])
   \<and> push_results sample_rate initial_state
       (JsonList [\<lparr>teams1 = Val [''FRC1''], teams2 = Val [''frc2''],
                   score1 = Val 1, score2 = Val 0\<rparr>])
     = (\<lparr>env = initial_env,
         TEAM_RATINGS = [(''frc1'', \<lparr>mu = 25, sigma = 25 / 3\<rparr>),
                         (''frc2'', \<lparr>mu = 24, sigma = 25 / 3\<rparr>),
                         (''FRC1'', \<lparr>mu = 26, sigma = 25 / 3\<rparr>)],
         LAST_EVENT_KEY = None, LAST_YEAR = None\<rparr>,
        Inr 1)"
  (is "?a \<and> ?b \<and> ?c")
proof -
  have a: ?a by (simp add: initial_state_def)
  have b: ?b by (simp add: sample_rate_def default_rating_def)
  from write_back_keeps_given_key [where rate = sample_rate and st = initial_state, OF a b]
  have ?c
    by (simp add: initial_state_def default_rating_def)
  with a b show ?thesis by simp
qed

subsection \<open>A negative score in \<open>push_results\<close>\<close>

text \<open>
  C2 does not hold for a negative score: \<open>push_results\<close> tests the scores for \<open>None\<close> only,
  so a result with the score \<open>-1\<close> is applied and counted. The loop of \<open>update_ratings\<close>
  skips a match with the same alliances and scores.
\<close>

theorem push_results_applies_negative_score:
  assumes "TEAM_RATINGS st = []"
    and "rate (env st) [default_rating] [default_rating] [1, 0] = Inr ([r1], [r2])"
  shows
    "push_results rate st
       (JsonList [\<lparr>teams1 = Val [''a''], teams2 = Val [''b''],
                   score1 = Val (- 1), score2 = Val 5\<rparr>])
     = (st\<lparr>TEAM_RATINGS := [(''a'', r1), (''b'', r2)]\<rparr>, Inr 1)
     \<and> rebuild_step rate ek yr st
         \<lparr>actual_time = Missing, time = Missing, comp_level = Missing, set_number = Missing,
          match_number = Missing,
          alliances = Val
            \<lparr>red = Val \<lparr>team_keys = Val [''a''], score = Val (- 1)\<rparr>,
             blue = Val \<lparr>team_keys = Val [''b''], score = Val 5\<rparr>\<rparr>\<rparr>
       = None"
  using assms
  by (simp add: push_results_def push_skips_def no_teams_def apply_result_def ranks_of_def
      get_team_rating_def set_rating_def dict_set_def canonical_a canonical_b Let_def
      rebuild_step_def no_alliances_def)

theorem push_results_applies_negative_score_witness:
  "TEAM_RATINGS initial_state = []
   \<and> sample_rate (env initial_state) [default_rating] [default_rating] [1, 0]
       = Inr ([\<lparr>mu = 24, sigma = 25 / 3\<rparr>], [\<lparr>mu = 26, sigma = 25 / 3\<rparr>])
   \<and> push_results sample_rate initial_state
       (JsonList [\<lparr>teams1 = Val [''a''], teams2 = Val [''b''],
                   score1 = Val (- 1), score2 = Val 5\<rparr>])
     = (\<lparr>env = initial_env,
         TEAM_RATINGS = [(''a'', \<lparr>mu = 24, sigma = 25 / 3\<rparr>),
                         (''b'', \<lparr>mu = 26, sigma = 25 / 3\<rparr>)],
         LAST_EVENT_KEY = None, LAST_YEAR = None\<rparr>,
        Inr 1)"
  (is "?a \<and> ?b \<and> ?c")
proof -
  have a: ?a by (simp add: initial_state_def)
  have b: ?b by (simp add: sample_rate_def default_rating_def)
  from push_results_applies_negative_score
    [where rate = sample_rate and st = initial_state, OF a b]
  have ?c
    by (simp add: initial_state_def)
  with a b show ?thesis by simp
qed

text \<open>
  What \<open>push_results\<close> does skip: an item whose \<open>teams1\<close> or \<open>teams2\<close> is absent, \<open>null\<close> or
  empty, or whose \<open>score1\<close> or \<open>score2\<close> is absent or \<open>null\<close>. The loop over a batch ends in
  the state, and with the count, of the loop over the batch without these items.
\<close>

theorem push_results_skips_malformed:
  "push_results rate st (JsonList ms)
     = push_results rate st (JsonList (filter (\<lambda>m. \<not> push_skips m) ms))
   \<and> (push_skips m \<longleftrightarrow>
        teams1 m \<in> {Missing, Null, Val []} \<or> teams2 m \<in> {Missing, Null, Val []}
        \<or> score1 m \<in> {Missing, Null} \<or> score2 m \<in> {Missing, Null})"
proof -
  have l: "push_loop rate s xs n = push_loop rate s (filter (\<lambda>m. \<not> push_skips m) xs) n"
    for s xs n
    by (induction xs arbitrary: s n) (simp_all split: prod.splits sum.splits)
  have g: "get f = None \<longleftrightarrow> f \<in> {Missing, Null}" for f :: "'a field"
    by (cases f) simp_all
  have t: "no_teams (get f) \<longleftrightarrow> f \<in> {Missing, Null, Val []}" for f
    by (cases f) (simp_all add: no_teams_def)
  show ?thesis
    using l [of st ms 0] by (simp add: push_results_def push_skips_def g t)
qed

subsection \<open>The order of the replay\<close>



subsection \<open>A rebuild whose fetch fails\<close>

lemma gather_events_eq:
  "gather_events fm evs acc =
     (if \<exists>ev\<in>set evs. event_fetch_raises fm ev then None
      else Some (acc @ concat (map (event_matches fm) evs)))"
proof (induction evs arbitrary: acc)
  case Nil
  then show ?case by simp
next
  case (Cons ev evs)
  have step: "gather_events fm (ev # evs) acc =
      (if event_fetch_raises fm ev then None
       else gather_events fm evs (acc @ event_matches fm ev))"
    by (simp add: event_fetch_raises_def event_matches_def
        split: option.splits response.splits response_body.splits json.splits)
  show ?case
    unfolding step by (simp add: Cons.IH)
qed

text \<open>
  C4 does not hold for a season: the provider answers the match request of the first of
  two events with status 500, and the rebuild goes on. The table, which held one team,
  is cleared and holds the two teams of the second event's match afterwards.
\<close>

theorem failed_event_is_skipped:
  "sample_provider ''e1'' = Response 500 InvalidJson
   \<and> update_ratings sample_rate ''key'' sample_provider sample_season
       (initial_state\<lparr>TEAM_RATINGS := [(''frc9'', \<lparr>mu = 40, sigma = 2\<rparr>)]\<rparr>)
       (Some \<lparr>request_event_key = Missing, request_year = Val 2024\<rparr>)
     = (\<lparr>env = initial_env,
         TEAM_RATINGS = [(''frc1'', \<lparr>mu = 26, sigma = 25 / 3\<rparr>),
                         (''frc2'', \<lparr>mu = 24, sigma = 25 / 3\<rparr>)],
         LAST_EVENT_KEY = None, LAST_YEAR = Some 2024\<rparr>,
        Inr \<lparr>report_event_key = None, report_year = Some 2024, report_teams_indexed = 2\<rparr>)"
  by (simp add: update_ratings_def given_key_def given_year_def gather_def sample_season_def
      sample_provider_def replay_def sort_by_time_def rebuild_step_def no_alliances_def
      sample_match_def apply_result_def ranks_of_def get_team_rating_def set_rating_def
      dict_set_def canonical_frc1 canonical_frc2 sample_rate_def default_rating_def
      initial_state_def Let_def)

text \<open>
  C4, amended. With the provider's key configured: a rebuild for one event whose match
  request does not answer with status 200 and a decodable body, and a rebuild for a
  season whose event list does not answer with status 200 and a list, answer with the
  error 500 and leave the state as it is. A rebuild for a season whose event list is
  delivered does the same when the match request of one of the events raises; otherwise
  it clears the table and replays the matches the events deliver, and an event whose
  match request answers with another status than 200 delivers none.
\<close>

theorem rebuild_after_failed_fetch:
  assumes "K \<noteq> []"
  shows
    "(given_key (request_event_key d) = Some k \<and> given_year (request_year d) = None
        \<and> (\<forall>j. fm k \<noteq> Response 200 (Json j)) \<longrightarrow>
      update_ratings rate K fm fe st (Some d) = (st, Inl ServerError))
     \<and> (given_key (request_event_key d) = None \<and> given_year (request_year d) = Some y
        \<and> (\<forall>evs. fe y \<noteq> Response 200 (Json (JsonList evs))) \<longrightarrow>
      update_ratings rate K fm fe st (Some d) = (st, Inl ServerError))
     \<and> (given_key (request_event_key d) = None \<and> given_year (request_year d) = Some y
        \<and> fe y = Response 200 (Json (JsonList evs)) \<longrightarrow>
      update_ratings rate K fm fe st (Some d) =
        (if \<exists>ev\<in>set evs. event_fetch_raises fm ev then (st, Inl ServerError)
         else
           (case replay rate None (Some y) st
                   (JsonList (concat (map (event_matches fm) evs))) of
              (st', Inl e) \<Rightarrow> (st', Inl (Uncaught e))
            | (st', Inr u) \<Rightarrow>
                (st', Inr \<lparr>report_event_key = None, report_year = Some y,
                           report_teams_indexed = length (TEAM_RATINGS st')\<rparr>))))
     \<and> (\<forall>ev status b. key ev = Val k \<and> fm k = Response status b \<and> status \<noteq> 200 \<longrightarrow>
          \<not> event_fetch_raises fm ev \<and> event_matches fm ev = [])"
proof -
  have a: "update_ratings rate K fm fe st (Some d) = (st, Inl ServerError)"
    if "given_key (request_event_key d) = Some k" "given_year (request_year d) = None"
      "\<forall>j. fm k \<noteq> Response 200 (Json j)"
  proof -
    from that(3) have "gather fm fe (Some k) None = Inl ServerError"
      by (cases "fm k") (auto simp add: gather_def split: response_body.splits)
    with that(1,2) assms show ?thesis
      by (simp add: update_ratings_def Let_def)
  qed
  have b: "update_ratings rate K fm fe st (Some d) = (st, Inl ServerError)"
    if "given_key (request_event_key d) = None" "given_year (request_year d) = Some y"
      "\<forall>evs. fe y \<noteq> Response 200 (Json (JsonList evs))"
  proof -
    from that(3) have "gather fm fe None (Some y) = Inl ServerError"
      by (cases "fe y") (auto simp add: gather_def split: response_body.splits json.splits)
    with that(1,2) assms show ?thesis
      by (simp add: update_ratings_def Let_def)
  qed
  have c: "update_ratings rate K fm fe st (Some d) =
        (if \<exists>ev\<in>set evs. event_fetch_raises fm ev then (st, Inl ServerError)
         else
           (case replay rate None (Some y) st
                   (JsonList (concat (map (event_matches fm) evs))) of
              (st', Inl e) \<Rightarrow> (st', Inl (Uncaught e))
            | (st', Inr u) \<Rightarrow>
                (st', Inr \<lparr>report_event_key = None, report_year = Some y,
                           report_teams_indexed = length (TEAM_RATINGS st')\<rparr>)))"
    if "given_key (request_event_key d) = None" "given_year (request_year d) = Some y"
      "fe y = Response 200 (Json (JsonList evs))"
  proof -
    from that(3) have "gather fm fe None (Some y) =
        (if \<exists>ev\<in>set evs. event_fetch_raises fm ev then Inl ServerError
         else Inr (JsonList (concat (map (event_matches fm) evs))))"
      by (simp add: gather_def gather_events_eq)
    with that(1,2) assms show ?thesis
      by (simp add: update_ratings_def Let_def)
  qed
  have e: "\<not> event_fetch_raises fm ev \<and> event_matches fm ev = []"
    if "key ev = Val k" "fm k = Response status b" "status \<noteq> 200" for ev status b
    using that
    by (auto simp add: event_fetch_raises_def event_matches_def
        split: response_body.splits json.splits)
  from a b c e show ?thesis by blast
qed

theorem rebuild_after_failed_fetch_witness:
  "''key'' \<noteq> []
   \<and> update_ratings sample_rate ''key'' sample_provider sample_season
       (initial_state\<lparr>TEAM_RATINGS := [(''frc9'', \<lparr>mu = 40, sigma = 2\<rparr>)]\<rparr>)
       (Some \<lparr>request_event_key = Val ''e1'', request_year = Missing\<rparr>)
     = (initial_state\<lparr>TEAM_RATINGS := [(''frc9'', \<lparr>mu = 40, sigma = 2\<rparr>)]\<rparr>, Inl ServerError)
   \<and> \<not> event_fetch_raises sample_provider \<lparr>key = Val ''e1''\<rparr>
   \<and> event_matches sample_provider \<lparr>key = Val ''e1''\<rparr> = []
   \<and> event_matches sample_provider \<lparr>key = Val ''e2''\<rparr> = [sample_match]"
  (is "?a \<and> ?b \<and> ?c \<and> ?d \<and> ?e")
proof -
  have a: ?a by simp
  note th = rebuild_after_failed_fetch
    [where K = "''key''" and fm = sample_provider and fe = sample_season and rate = sample_rate
       and st = "initial_state\<lparr>TEAM_RATINGS := [(''frc9'', \<lparr>mu = 40, sigma = 2\<rparr>)]\<rparr>"
       and d = "\<lparr>request_event_key = Val ''e1'', request_year = Missing\<rparr>"
       and k = "''e1''", OF a]
  have h: "given_key (request_event_key \<lparr>request_event_key = Val ''e1'', request_year = Missing\<rparr>)
        = Some ''e1''
      \<and> given_year (request_year \<lparr>request_event_key = Val ''e1'', request_year = Missing\<rparr>) = None
      \<and> (\<forall>j. sample_provider ''e1'' \<noteq> Response 200 (Json j))"
    by (simp add: given_key_def given_year_def sample_provider_def)
  from th h have b: ?b by blast
  have s: "key \<lparr>key = Val ''e1''\<rparr> = Val ''e1'' \<and> sample_provider ''e1'' = Response 500 InvalidJson
      \<and> (500 :: nat) \<noteq> 200"
    by (simp add: sample_provider_def)
  from th s have cd: "?c \<and> ?d" by blast
  have e: ?e by (simp add: event_matches_def sample_provider_def)
  from a b cd e show ?thesis by simp
qed

subsection \<open>Export and import\<close>















end
